theory Spec2Isabelle
  imports Complex_Main
begin

section \<open>Numbers and vectors\<close>

text \<open>
  The gallery is a JavaScript program over the three.js engine. A JavaScript number is
  modelled as a real number: \<open>Math.sin\<close>, \<open>Math.cos\<close>, \<open>Math.PI\<close> and the square root
  are the functions of analysis. Where a statement depends on the rounding of a binary64
  operation, the rounding is written out (section \<open>Binary64 arithmetic\<close>).

  \<open>THREE.Vector3\<close> is the engine's vector class. The operations used by the gallery
  are \<open>set\<close>, \<open>add\<close>, \<open>sub\<close>, \<open>multiplyScalar\<close>, \<open>lengthSq\<close>, \<open>length\<close> and
  \<open>normalize\<close>; the last one divides by \<open>length() || 1\<close>, so the zero vector stays
  the zero vector.
\<close>

record Vector3 =
  vx :: real
  vy :: real
  vz :: real

definition Vector3_new :: "real \<Rightarrow> real \<Rightarrow> real \<Rightarrow> Vector3" where
  "Vector3_new a b c = \<lparr>vx = a, vy = b, vz = c\<rparr>"

definition add3 :: "Vector3 \<Rightarrow> Vector3 \<Rightarrow> Vector3" where
  "add3 v w = \<lparr>vx = vx v + vx w, vy = vy v + vy w, vz = vz v + vz w\<rparr>"

definition sub3 :: "Vector3 \<Rightarrow> Vector3 \<Rightarrow> Vector3" where
  "sub3 v w = \<lparr>vx = vx v - vx w, vy = vy v - vy w, vz = vz v - vz w\<rparr>"

definition multiplyScalar :: "Vector3 \<Rightarrow> real \<Rightarrow> Vector3" where
  "multiplyScalar v s = \<lparr>vx = vx v * s, vy = vy v * s, vz = vz v * s\<rparr>"

definition lengthSq :: "Vector3 \<Rightarrow> real" where
  "lengthSq v = vx v * vx v + vy v * vy v + vz v * vz v"

definition length3 :: "Vector3 \<Rightarrow> real" where
  "length3 v = sqrt (lengthSq v)"

definition divideScalar :: "Vector3 \<Rightarrow> real \<Rightarrow> Vector3" where
  "divideScalar v s = multiplyScalar v (1 / s)"

definition normalize3 :: "Vector3 \<Rightarrow> Vector3" where
  "normalize3 v = divideScalar v (if length3 v = 0 then 1 else length3 v)"

section \<open>The player controller\<close>

text \<open>
  The browser side of the controller: which pointer-lock entry points the canvas element
  and the document offer (a property that is \<open>undefined\<close> is \<open>False\<close>), how many one-shot
  \<open>pointerlockchange\<close> listeners \<open>lock\<close> and \<open>unlock\<close> have left registered, and how often
  the browser was asked to capture or to release the pointer.
\<close>

record domElement =
  requestPointerLock :: bool
  mozRequestPointerLock :: bool
  webkitRequestPointerLock :: bool
  onLock_listeners :: nat
  requests :: nat

record document =
  exitPointerLock :: bool
  mozExitPointerLock :: bool
  webkitExitPointerLock :: bool
  onUnlock_listeners :: nat
  exits :: nat

text \<open>
  The fields of \<open>PlayerController\<close>. The camera is the engine's object: the controller
  writes its position and calls \<open>lookAt\<close>, recorded here as the last look-at target.
  \<open>yaw\<close> is not set by the constructor, so it is \<open>undefined\<close> (\<open>None\<close>) until the
  first pointer movement; every read is \<open>this.yaw || 0\<close>.
\<close>

record PlayerController =
  camera_position :: Vector3
  camera_lookAt :: Vector3
  domElement :: domElement
  document :: document
  moveSpeed :: real
  rotationSpeed :: real
  moveForward :: bool
  moveBackward :: bool
  moveLeft :: bool
  moveRight :: bool
  isLocked :: bool
  velocity :: Vector3
  direction :: Vector3
  target :: Vector3
  yaw :: "real option"

definition yaw_or_0 :: "PlayerController \<Rightarrow> real" where
  "yaw_or_0 s = (case yaw s of None \<Rightarrow> 0 | Some a \<Rightarrow> a)"

definition updateTarget :: "PlayerController \<Rightarrow> PlayerController" where
  "updateTarget s =
     (let d = normalize3 (Vector3_new (sin (yaw_or_0 s)) 0 (cos (yaw_or_0 s)));
          t = add3 (camera_position s) d
      in s\<lparr>direction := d, target := t, camera_lookAt := t\<rparr>)"

definition PlayerController_new :: "domElement \<Rightarrow> document \<Rightarrow> PlayerController" where
  "PlayerController_new el doc =
     updateTarget
       \<lparr>camera_position = Vector3_new 0 1.6 5,
        camera_lookAt = Vector3_new 0 0 0,
        domElement = el,
        document = doc,
        moveSpeed = 0.1,
        rotationSpeed = 0.002,
        moveForward = False,
        moveBackward = False,
        moveLeft = False,
        moveRight = False,
        isLocked = False,
        velocity = Vector3_new 0 0 0,
        direction = Vector3_new 0 0 0,
        target = Vector3_new 0 0 0,
        yaw = None\<rparr>"

datatype error = Error string

datatype promise = Pending | Fulfilled | Rejected error

text \<open>
  \<open>lock\<close> returns a promise. With no request function on the canvas the promise is
  rejected at once; otherwise a one-shot listener is registered, the browser is asked
  for the pointer, and the promise stays pending until the listener runs.
\<close>

definition lock :: "PlayerController \<Rightarrow> promise \<times> PlayerController" where
  "lock s =
     (let el = domElement s;
          f = (requestPointerLock el \<or> mozRequestPointerLock el \<or> webkitRequestPointerLock el);
          el1 = el\<lparr>requestPointerLock := f\<rparr>
      in if f
         then (Pending,
               s\<lparr>domElement := el1\<lparr>onLock_listeners := Suc (onLock_listeners el1),
                                      requests := Suc (requests el1)\<rparr>\<rparr>)
         else (Rejected (Error ''Pointer Lock API not supported''), s\<lparr>domElement := el1\<rparr>))"

definition unlock :: "PlayerController \<Rightarrow> promise \<times> PlayerController" where
  "unlock s =
     (let doc = document s;
          f = (exitPointerLock doc \<or> mozExitPointerLock doc \<or> webkitExitPointerLock doc);
          doc1 = doc\<lparr>exitPointerLock := f\<rparr>
      in if f
         then (Pending,
               s\<lparr>document := doc1\<lparr>onUnlock_listeners := Suc (onUnlock_listeners doc1),
                                     exits := Suc (exits doc1)\<rparr>\<rparr>)
         else (Fulfilled, s\<lparr>document := doc1, isLocked := False\<rparr>))"

definition onKeyDown :: "string \<Rightarrow> PlayerController \<Rightarrow> PlayerController" where
  "onKeyDown code s =
     (if code = ''KeyW'' \<or> code = ''ArrowUp'' then s\<lparr>moveForward := True\<rparr>
      else if code = ''KeyS'' \<or> code = ''ArrowDown'' then s\<lparr>moveBackward := True\<rparr>
      else if code = ''KeyA'' \<or> code = ''ArrowLeft'' then s\<lparr>moveRight := True\<rparr>
      else if code = ''KeyD'' \<or> code = ''ArrowRight'' then s\<lparr>moveLeft := True\<rparr>
      else if code = ''Escape'' then snd (unlock s)
      else s)"

definition onKeyUp :: "string \<Rightarrow> PlayerController \<Rightarrow> PlayerController" where
  "onKeyUp code s =
     (if code = ''KeyW'' \<or> code = ''ArrowUp'' then s\<lparr>moveForward := False\<rparr>
      else if code = ''KeyS'' \<or> code = ''ArrowDown'' then s\<lparr>moveBackward := False\<rparr>
      else if code = ''KeyA'' \<or> code = ''ArrowLeft'' then s\<lparr>moveRight := False\<rparr>
      else if code = ''KeyD'' \<or> code = ''ArrowRight'' then s\<lparr>moveLeft := False\<rparr>
      else s)"

text \<open>
  \<open>onPointerlockChange\<close> is the controller's permanent listener on the document; its
  argument is the value of \<open>document.pointerLockElement === this.domElement\<close> when the
  event is delivered. The changes it makes to the blocker and crosshair elements are
  display only and are not modelled.
\<close>

definition onPointerlockChange :: "bool \<Rightarrow> PlayerController \<Rightarrow> PlayerController" where
  "onPointerlockChange isElement s = s\<lparr>isLocked := isElement\<rparr>"

definition onLock :: "PlayerController \<Rightarrow> PlayerController" where
  "onLock s =
     (if onLock_listeners (domElement s) = 0 then s
      else s\<lparr>isLocked := True, domElement := (domElement s)\<lparr>onLock_listeners := 0\<rparr>\<rparr>)"

definition onUnlock :: "PlayerController \<Rightarrow> PlayerController" where
  "onUnlock s =
     (if onUnlock_listeners (document s) = 0 then s
      else s\<lparr>isLocked := False, document := (document s)\<lparr>onUnlock_listeners := 0\<rparr>\<rparr>)"

text \<open>
  A \<open>mousemove\<close> event as the controller and the gallery read it; \<open>movementX\<close> may be
  missing, and is then read as \<open>0\<close>.
\<close>

record MouseEvent =
  movementX :: "real option"
  clientX :: real
  clientY :: real
  button :: int

definition onMouseMove :: "MouseEvent \<Rightarrow> PlayerController \<Rightarrow> PlayerController" where
  "onMouseMove event s =
     (if \<not> isLocked s then s
      else let mx = (case movementX event of None \<Rightarrow> 0 | Some m \<Rightarrow> m)
           in updateTarget (s\<lparr>yaw := Some (yaw_or_0 s - mx * rotationSpeed s)\<rparr>))"

definition forward_of :: "PlayerController \<Rightarrow> Vector3" where
  "forward_of s = normalize3 (Vector3_new (sin (yaw_or_0 s)) 0 (cos (yaw_or_0 s)))"

definition right_of :: "PlayerController \<Rightarrow> Vector3" where
  "right_of s =
     normalize3 (Vector3_new (sin (yaw_or_0 s + pi / 2)) 0 (cos (yaw_or_0 s + pi / 2)))"

text \<open>
  The velocity that \<open>update\<close> accumulates from the four flags before it normalises it,
  and \<open>update\<close> itself. The frame time \<open>delta\<close> is an argument that the body never
  reads.
\<close>

definition raw_velocity :: "PlayerController \<Rightarrow> Vector3" where
  "raw_velocity s =
     (let v0 = Vector3_new 0 0 0;
          v1 = (if moveForward s then add3 v0 (forward_of s) else v0);
          v2 = (if moveBackward s then sub3 v1 (forward_of s) else v1);
          v3 = (if moveLeft s then sub3 v2 (right_of s) else v2);
          v4 = (if moveRight s then add3 v3 (right_of s) else v3)
      in v4)"

definition update :: "real \<Rightarrow> PlayerController \<Rightarrow> PlayerController" where
  "update delta s =
     (if \<not> isLocked s then s
      else let v = raw_velocity s
           in if lengthSq v > 0
              then let w = multiplyScalar (normalize3 v) (moveSpeed s)
                   in updateTarget (s\<lparr>velocity := w, camera_position := add3 (camera_position s) w\<rparr>)
              else s\<lparr>velocity := v\<rparr>)"

text \<open>
  The events that reach the controller, in any order: key presses, pointer movement,
  animation frames, a click on the canvas (which calls \<open>lock\<close>), and the two
  \<open>pointerlockchange\<close> deliveries: at the document (the permanent listener, then the
  one-shot listeners of \<open>unlock\<close>) and at the canvas (the one-shot listeners of
  \<open>lock\<close>).
\<close>

datatype event =
    KeyDown string
  | KeyUp string
  | MouseMove MouseEvent
  | Frame real
  | Click
  | PointerlockChangeDocument bool
  | PointerlockChangeElement

fun step :: "event \<Rightarrow> PlayerController \<Rightarrow> PlayerController" where
  "step (KeyDown code) s = onKeyDown code s"
| "step (KeyUp code) s = onKeyUp code s"
| "step (MouseMove e) s = onMouseMove e s"
| "step (Frame delta) s = update delta s"
| "step Click s = snd (lock s)"
| "step (PointerlockChangeDocument b) s = onUnlock (onPointerlockChange b s)"
| "step PointerlockChangeElement s = onLock s"

inductive reachable :: "PlayerController \<Rightarrow> bool" where
  reachable_new: "reachable (PlayerController_new el doc)"
| reachable_step: "reachable s \<Longrightarrow> reachable (step e s)"

section \<open>Artworks\<close>

text \<open>
  An entry of the manifest \<open>ARTWORKS\<close>, and the part of an engine object that the
  gallery reads: its identity (JavaScript compares objects by reference, here by
  \<open>oid\<close>), its \<open>userData\<close>, which is the empty object unless the gallery tags it, and
  the identities of its children.
\<close>

record artwork_data =
  image_name :: string
  title :: string
  artist :: string

datatype userData = Empty | UserData string artwork_data

record Object3D =
  oid :: nat
  userData :: userData
  children :: "nat list"

text \<open>
  The fields of \<open>Artwork\<close>. The group's transform is its position, the target of its
  \<open>lookAt\<close> call and its scale; \<open>frame_emissive\<close> is the emissive colour of the frame's
  material.
\<close>

record Artwork =
  data :: artwork_data
  index :: nat
  total_count :: nat
  radius :: real
  group_position :: Vector3
  group_lookAt :: Vector3
  group_scale :: Vector3
  group_children :: "Object3D list"
  frame :: Object3D
  artwork :: Object3D
  frame_emissive :: nat
  isHovered :: bool
  originalScale :: real
  highlightScale :: real
  highlightColor :: nat
  originalColor :: nat

text \<open>
  The constructor with \<open>createArtwork\<close>, which it calls. The radius is optional and
  defaults to 15. The two meshes allocated for artwork number \<open>i\<close> get the identities
  \<open>2 * i\<close> and \<open>2 * i + 1\<close>, so that meshes of different artworks are different objects.
\<close>

definition Artwork_new :: "artwork_data \<Rightarrow> nat \<Rightarrow> nat \<Rightarrow> real option \<Rightarrow> Artwork" where
  "Artwork_new d i n r =
     (let rad = (case r of None \<Rightarrow> 15 | Some a \<Rightarrow> a);
          angle = (real i / real n) * pi * 2;
          x = sin angle * rad;
          z = cos angle * rad;
          fr = \<lparr>oid = 2 * i, userData = Empty, children = []\<rparr>;
          aw = \<lparr>oid = 2 * i + 1, userData = UserData ''artwork'' d, children = []\<rparr>
      in \<lparr>data = d, index = i, total_count = n, radius = rad,
          group_position = Vector3_new x 1.6 z,
          group_lookAt = Vector3_new 0 1.6 0,
          group_scale = Vector3_new 1 1 1,
          group_children = [fr, aw],
          frame = fr,
          artwork = aw,
          frame_emissive = 0x000000,
          isHovered = False,
          originalScale = 1,
          highlightScale = 1.05,
          highlightColor = 0xffffff,
          originalColor = 0x333333\<rparr>)"

definition setHighlight :: "bool \<Rightarrow> Artwork \<Rightarrow> Artwork" where
  "setHighlight highlight a =
     (if highlight \<and> \<not> isHovered a
      then a\<lparr>group_scale := Vector3_new (highlightScale a) (highlightScale a) (highlightScale a),
              frame_emissive := 0x333333,
              isHovered := True\<rparr>
      else if \<not> highlight \<and> isHovered a
      then a\<lparr>group_scale := Vector3_new 1 1 1,
              frame_emissive := 0x000000,
              isHovered := False\<rparr>
      else a)"

definition showInfo :: "Artwork \<Rightarrow> string \<times> string" where
  "showInfo a = (title (data a), artist (data a))"

section \<open>The gallery\<close>

definition ARTWORKS :: "artwork_data list" where
  "ARTWORKS =
     [\<lparr>image_name = ''socrates.jpg'', title = ''The Death of Socrates'', artist = ''Jacques-Louis David''\<rparr>,
      \<lparr>image_name = ''stars.jpg'', title = ''Starry Night'', artist = ''Vincent Van Gogh''\<rparr>,
      \<lparr>image_name = ''wave.jpg'', title = ''The Great Wave off Kanagawa'', artist = ''Katsushika Hokusai''\<rparr>,
      \<lparr>image_name = ''spring.jpg'', title = ''Effect of Spring, Giverny'', artist = ''Claude Monet''\<rparr>,
      \<lparr>image_name = ''mountain.jpg'', title = ''Mount Corcoran'', artist = ''Albert Bierstadt''\<rparr>,
      \<lparr>image_name = ''sunday.jpg'', title = ''A Sunday on La Grande Jatte'', artist = ''George Seurat''\<rparr>]"

text \<open>
  \<open>createArtworks\<close> runs over the manifest with \<open>forEach\<close>, constructs artwork number
  \<open>index\<close> of \<open>ARTWORKS.length\<close> with the default radius and pushes it on
  \<open>state.artworks\<close>. The manifest is an argument here.
\<close>

definition createArtworks :: "artwork_data list \<Rightarrow> Artwork list" where
  "createArtworks items =
     map (\<lambda>(artworkData, i). Artwork_new artworkData i (length items) None)
       (zip items [0..<length items])"

text \<open>
  The part of the page and of \<open>state\<close> that the handlers touch. An element that is
  missing from the page is \<open>None\<close>. \<open>console\<close> collects the calls of \<open>console.error\<close>:
  the message, if there is one, and the error.
\<close>

record gallery =
  player :: PlayerController
  artworks :: "Artwork list"
  mouse :: "real \<times> real"
  innerWidth :: real
  innerHeight :: real
  cursor :: string
  titleElement :: "string option"
  artistElement :: "string option"
  infoPanel_visible :: "bool option"
  infoTimeout :: bool
  console :: "(string \<times> error) list"

text \<open>
  The engine's ray cast, \<open>setFromCamera\<close> followed by \<open>intersectObjects\<close> on the whole
  scene: from the pointer in normalised device coordinates and the camera it returns
  the intersected objects, nearest first. The engine is not part of the repository, and
  the scene it searches is whatever the function returns. The ray cast reads the world
  matrices of the last rendered frame, which \<open>setHighlight\<close> does not touch, so the
  highlights are not among its arguments.
\<close>

type_synonym raycaster = "real \<times> real \<Rightarrow> Vector3 \<Rightarrow> Vector3 \<Rightarrow> Object3D list"

definition ndc :: "MouseEvent \<Rightarrow> gallery \<Rightarrow> real \<times> real" where
  "ndc event g =
     ((clientX event / innerWidth g) * 2 - 1, - (clientY event / innerHeight g) * 2 + 1)"

definition intersectObjects :: "raycaster \<Rightarrow> gallery \<Rightarrow> Object3D list" where
  "intersectObjects rc g = rc (mouse g) (camera_position (player g)) (camera_lookAt (player g))"

definition is_artwork :: "Object3D \<Rightarrow> bool" where
  "is_artwork obj = (case userData obj of Empty \<Rightarrow> False | UserData t d \<Rightarrow> t = ''artwork'')"

definition owns :: "Artwork \<Rightarrow> Object3D \<Rightarrow> bool" where
  "owns art obj =
     list_ex (\<lambda>child. oid child = oid obj \<or> oid obj \<in> set (children child)) (group_children art)"

fun find_index :: "('a \<Rightarrow> bool) \<Rightarrow> 'a list \<Rightarrow> nat option" where
  "find_index P [] = None"
| "find_index P (a # as) =
     (if P a then Some 0 else map_option Suc (find_index P as))"

text \<open>
  The loop of \<open>onPointerMove\<close> over the intersections: the position in
  \<open>state.artworks\<close> of the artwork that gets the highlight. A tagged object that no
  registered artwork owns is passed over and the loop goes on.
\<close>

fun hoverPick :: "Artwork list \<Rightarrow> Object3D list \<Rightarrow> nat option" where
  "hoverPick arts [] = None"
| "hoverPick arts (obj # rest) =
     (if is_artwork obj
      then (case find_index (\<lambda>art. owns art obj) arts of
              Some i \<Rightarrow> Some i
            | None \<Rightarrow> hoverPick arts rest)
      else hoverPick arts rest)"

text \<open>
  The loop of \<open>handleArtworkClick\<close>: the \<open>userData.data\<close> of the first tagged object,
  whose title and artist are shown.
\<close>

fun clickPick :: "Object3D list \<Rightarrow> artwork_data option" where
  "clickPick [] = None"
| "clickPick (obj # rest) =
     (case userData obj of
        Empty \<Rightarrow> clickPick rest
      | UserData t d \<Rightarrow> if t = ''artwork'' then Some d else clickPick rest)"

definition onPointerMove :: "raycaster \<Rightarrow> MouseEvent \<Rightarrow> gallery \<Rightarrow> gallery" where
  "onPointerMove rc event g =
     (if \<not> isLocked (player g) then g
      else let g1 = g\<lparr>mouse := ndc event g\<rparr>;
               arts = map (setHighlight False) (artworks g1);
               hits = intersectObjects rc g1
           in case hoverPick arts hits of
                Some i \<Rightarrow> g1\<lparr>artworks := arts[i := setHighlight True (arts ! i)],
                              cursor := ''pointer''\<rparr>
              | None \<Rightarrow> g1\<lparr>artworks := arts, cursor := ''default''\<rparr>)"

definition showArtworkInfo :: "string \<Rightarrow> string \<Rightarrow> gallery \<Rightarrow> gallery" where
  "showArtworkInfo t a g =
     (if titleElement g = None \<or> artistElement g = None \<or> infoPanel_visible g = None then g
      else g\<lparr>titleElement := Some (if t = [] then ''Untitled'' else t),
              artistElement := Some (if a = [] then ''Unknown Artist'' else a),
              infoPanel_visible := Some True,
              infoTimeout := True\<rparr>)"

definition handleArtworkClick :: "raycaster \<Rightarrow> MouseEvent \<Rightarrow> gallery \<Rightarrow> gallery" where
  "handleArtworkClick rc event g =
     (if \<not> isLocked (player g) then g
      else let g1 = g\<lparr>mouse := ndc event g\<rparr>;
               hits = intersectObjects rc g1
           in case clickPick hits of
                Some d \<Rightarrow> showArtworkInfo (title d) (artist d) g1
              | None \<Rightarrow> g1)"

text \<open>
  What the two passes resolve for an event in a state: the artwork that the hover pass
  highlights, and the manifest entry that the click pass shows.
\<close>

definition hoverTarget :: "raycaster \<Rightarrow> MouseEvent \<Rightarrow> gallery \<Rightarrow> nat option" where
  "hoverTarget rc event g =
     hoverPick (map (setHighlight False) (artworks g))
       (intersectObjects rc (g\<lparr>mouse := ndc event g\<rparr>))"

definition clickTarget :: "raycaster \<Rightarrow> MouseEvent \<Rightarrow> gallery \<Rightarrow> artwork_data option" where
  "clickTarget rc event g = clickPick (intersectObjects rc (g\<lparr>mouse := ndc event g\<rparr>))"

text \<open>
  The listeners that \<open>setupEventListeners\<close> puts on the canvas: a left click asks for the
  pointer when the controller is unlocked, and logs a rejection; when it is locked the
  click selects an artwork. The context menu does the same with the roles of its
  branches exchanged.
\<close>

definition lock_and_catch :: "string \<Rightarrow> gallery \<Rightarrow> gallery" where
  "lock_and_catch msg g =
     (case lock (player g) of
        (Rejected err, p) \<Rightarrow> g\<lparr>player := p, console := console g @ [(msg, err)]\<rparr>
      | (_, p) \<Rightarrow> g\<lparr>player := p\<rparr>)"

definition canvas_click :: "raycaster \<Rightarrow> MouseEvent \<Rightarrow> gallery \<Rightarrow> gallery" where
  "canvas_click rc event g =
     (if button event = 0
      then if \<not> isLocked (player g)
           then lock_and_catch ''Failed to lock pointer:'' g
           else handleArtworkClick rc event g
      else g)"

definition canvas_contextmenu :: "raycaster \<Rightarrow> MouseEvent \<Rightarrow> gallery \<Rightarrow> gallery" where
  "canvas_contextmenu rc event g =
     (if isLocked (player g) then handleArtworkClick rc event g
      else lock_and_catch [] g)"

text \<open>
  The events of the page, each delivered to its listeners in the order of their
  registration: the controller's own listeners first (\<open>setupPlayer\<close> runs before
  \<open>setupEventListeners\<close>), then the gallery's. A key event carries \<open>code\<close> and \<open>key\<close>.
  \<open>InfoTimeout\<close> is the five-second timer of the info panel running out.
\<close>

datatype page_event =
    Keydown string string
  | Keyup string
  | Mousemove MouseEvent
  | CanvasClick MouseEvent
  | ContextMenu MouseEvent
  | AnimationFrame real
  | LockChangeDocument bool
  | LockChangeElement
  | InfoTimeout
  | Resize real real

fun dispatch :: "raycaster \<Rightarrow> page_event \<Rightarrow> gallery \<Rightarrow> gallery" where
  "dispatch rc (Keydown code key) g =
     (let g1 = g\<lparr>player := onKeyDown code (player g)\<rparr>;
          g2 = (if key = ''Escape'' \<and> isLocked (player g1)
                then g1\<lparr>player := snd (unlock (player g1))\<rparr> else g1)
      in if isLocked (player g2) then g2\<lparr>player := onKeyDown code (player g2)\<rparr> else g2)"
| "dispatch rc (Keyup code) g = g\<lparr>player := onKeyUp code (onKeyUp code (player g))\<rparr>"
| "dispatch rc (Mousemove e) g = onPointerMove rc e (g\<lparr>player := onMouseMove e (player g)\<rparr>)"
| "dispatch rc (CanvasClick e) g = canvas_click rc e (g\<lparr>player := snd (lock (player g))\<rparr>)"
| "dispatch rc (ContextMenu e) g = canvas_contextmenu rc e g"
| "dispatch rc (AnimationFrame delta) g = g\<lparr>player := update delta (player g)\<rparr>"
| "dispatch rc (LockChangeDocument b) g = g\<lparr>player := step (PointerlockChangeDocument b) (player g)\<rparr>"
| "dispatch rc LockChangeElement g = g\<lparr>player := step PointerlockChangeElement (player g)\<rparr>"
| "dispatch rc InfoTimeout g =
     (if infoTimeout g
      then g\<lparr>infoPanel_visible := map_option (\<lambda>_. False) (infoPanel_visible g), infoTimeout := False\<rparr>
      else g)"
| "dispatch rc (Resize w h) g = g\<lparr>innerWidth := w, innerHeight := h\<rparr>"

text \<open>
  The state after \<open>init\<close> and the two assignments that follow it: the artworks of the
  manifest, a new controller, the info panel hidden and the first title and artist in
  the text elements, where the page has them.
\<close>

definition init :: "domElement \<Rightarrow> document \<Rightarrow> real \<Rightarrow> real \<Rightarrow> bool \<Rightarrow> gallery" where
  "init el doc w h page =
     \<lparr>player = PlayerController_new el doc,
      artworks = createArtworks ARTWORKS,
      mouse = (0, 0),
      innerWidth = w,
      innerHeight = h,
      cursor = [],
      titleElement = (if page then Some (title (ARTWORKS ! 0)) else None),
      artistElement = (if page then Some (artist (ARTWORKS ! 0)) else None),
      infoPanel_visible = (if page then Some False else None),
      infoTimeout = False,
      console = []\<rparr>"

inductive reachable_gallery :: "raycaster \<Rightarrow> gallery \<Rightarrow> bool" for rc :: raycaster where
  reachable_init: "reachable_gallery rc (init el doc w h page)"
| reachable_dispatch: "reachable_gallery rc g \<Longrightarrow> reachable_gallery rc (dispatch rc e g)"

section \<open>Binary64 arithmetic\<close>

text \<open>
  JavaScript computes with binary64 numbers. A finite one is written here as
  \<open>significand * 2 ^ exponent\<close> with two integers. Each arithmetic operation returns the
  exact result rounded to 53 significant bits, to the nearest number and to the even
  significand in a tie. The exponent is not bounded: overflow and subnormal numbers are
  far from the values of a yaw. \<open>bit_length\<close> counts the binary digits of a natural
  number.
\<close>

record binary64 =
  significand :: int
  exponent :: int

definition b64_value :: "binary64 \<Rightarrow> real" where
  "b64_value a = of_int (significand a) * 2 powi exponent a"

fun bit_length :: "nat \<Rightarrow> nat" where
  "bit_length n = (if n = 0 then 0 else Suc (bit_length (n div 2)))"

declare bit_length.simps [simp del]

definition round53 :: "binary64 \<Rightarrow> binary64" where
  "round53 a =
     (let k = int (bit_length (nat \<bar>significand a\<bar>)) - 53
      in if k \<le> 0 then a
         else let q = significand a div 2 ^ nat k;
                  r = significand a mod 2 ^ nat k;
                  h = 2 ^ (nat k - 1);
                  n = (if r < h then q else if h < r then q + 1
                       else if even q then q else q + 1)
              in \<lparr>significand = n, exponent = exponent a + k\<rparr>)"

definition exact_sub :: "binary64 \<Rightarrow> binary64 \<Rightarrow> binary64" where
  "exact_sub a b =
     (let e = min (exponent a) (exponent b)
      in \<lparr>significand = significand a * 2 ^ nat (exponent a - e)
                         - significand b * 2 ^ nat (exponent b - e),
          exponent = e\<rparr>)"

definition exact_mul :: "binary64 \<Rightarrow> binary64 \<Rightarrow> binary64" where
  "exact_mul a b =
     \<lparr>significand = significand a * significand b, exponent = exponent a + exponent b\<rparr>"

definition b64_sub :: "binary64 \<Rightarrow> binary64 \<Rightarrow> binary64" where
  "b64_sub a b = round53 (exact_sub a b)"

definition b64_mul :: "binary64 \<Rightarrow> binary64 \<Rightarrow> binary64" where
  "b64_mul a b = round53 (exact_mul a b)"

definition b64_of_int :: "int \<Rightarrow> binary64" where
  "b64_of_int n = round53 \<lparr>significand = n, exponent = 0\<rparr>"

text \<open>
  The binary64 number nearest to the literal \<open>0.002\<close> of the constructor, and the
  assignment to \<open>this.yaw\<close> in \<open>onMouseMove\<close> as binary64 arithmetic carries it out:
  the product is rounded, then the difference. \<open>yaw64_after_1\<close> is the yaw of a new,
  locked controller after the pointer has moved by one pixel.
\<close>

definition rotationSpeed64 :: binary64 where
  "rotationSpeed64 = \<lparr>significand = 1152921504606847, exponent = - 59\<rparr>"

definition onMouseMove_yaw64 ::
  "bool \<Rightarrow> binary64 \<Rightarrow> binary64 option \<Rightarrow> binary64 option \<Rightarrow> binary64 option" where
  "onMouseMove_yaw64 locked speed mx y =
     (if \<not> locked then y
      else Some (b64_sub (case y of None \<Rightarrow> b64_of_int 0 | Some a \<Rightarrow> a)
                   (b64_mul (case mx of None \<Rightarrow> b64_of_int 0 | Some m \<Rightarrow> m) speed)))"

definition yaw64_after_1 :: "binary64 option" where
  "yaw64_after_1 = onMouseMove_yaw64 True rotationSpeed64 (Some (b64_of_int 1)) None"

definition exact_add :: "binary64 \<Rightarrow> binary64 \<Rightarrow> binary64" where
  "exact_add a b =
     (let e = min (exponent a) (exponent b)
      in \<lparr>significand = significand a * 2 ^ nat (exponent a - e)
                         + significand b * 2 ^ nat (exponent b - e),
          exponent = e\<rparr>)"

definition b64_add :: "binary64 \<Rightarrow> binary64 \<Rightarrow> binary64" where
  "b64_add a b = round53 (exact_add a b)"

text \<open>
  The binary64 number nearest to the literal \<open>0.1\<close> of \<open>moveSpeed\<close>, and the z coordinate
  that \<open>update\<close> writes to the camera when the normalised velocity is \<open>(0, 0, 1)\<close>, as it
  is at yaw 0 with only \<open>moveForward\<close> set: the velocity is multiplied by the speed and
  added to the position, each operation rounded.
\<close>

definition moveSpeed64 :: binary64 where
  "moveSpeed64 = \<lparr>significand = 3602879701896397, exponent = - 55\<rparr>"

definition forward_step_z64 :: "binary64 \<Rightarrow> binary64 \<Rightarrow> binary64" where
  "forward_step_z64 speed z = b64_add z (b64_mul (b64_of_int 1) speed)"

section \<open>Observations and sample states\<close>

text \<open>
  The displacement that one call of \<open>update\<close> applies to the camera.
\<close>

definition displacement :: "real \<Rightarrow> PlayerController \<Rightarrow> Vector3" where
  "displacement delta s = sub3 (camera_position (update delta s)) (camera_position s)"

text \<open>
  A run of events during which the controller is unlocked before each event.
\<close>

fun stays_unlocked :: "event list \<Rightarrow> PlayerController \<Rightarrow> bool" where
  "stays_unlocked [] s = True"
| "stays_unlocked (e # es) s = (\<not> isLocked s \<and> stays_unlocked es (step e s))"

text \<open>
  A browser with the pointer-lock interface and one without it, and some states of the
  controller reached from the constructor by events.
\<close>

definition canvas :: domElement where
  "canvas = \<lparr>requestPointerLock = True, mozRequestPointerLock = False,
             webkitRequestPointerLock = False, onLock_listeners = 0, requests = 0\<rparr>"

definition page_document :: document where
  "page_document = \<lparr>exitPointerLock = True, mozExitPointerLock = False,
                    webkitExitPointerLock = False, onUnlock_listeners = 0, exits = 0\<rparr>"

definition bare_canvas :: domElement where
  "bare_canvas = \<lparr>requestPointerLock = False, mozRequestPointerLock = False,
                  webkitRequestPointerLock = False, onLock_listeners = 0, requests = 0\<rparr>"

definition locked_player :: PlayerController where
  "locked_player = step (PointerlockChangeDocument True) (PlayerController_new canvas page_document)"

definition pointer_at :: "real \<Rightarrow> real \<Rightarrow> real \<Rightarrow> MouseEvent" where
  "pointer_at mx cx cy = \<lparr>movementX = Some mx, clientX = cx, clientY = cy, button = 0\<rparr>"

text \<open>
  An artwork is as its constructor built it when its group holds its frame and its
  image plane, with the identities derived from its index and the image plane tagged
  with its own manifest entry. A registry is in order when this holds of every artwork
  and each one sits at the position of its index. The objects of a ray cast are owned
  when every tagged one among them is a child of the group of a registered artwork.
\<close>

definition built :: "Artwork \<Rightarrow> bool" where
  "built a \<longleftrightarrow>
     group_children a = [frame a, artwork a] \<and>
     frame a = \<lparr>oid = 2 * index a, userData = Empty, children = []\<rparr> \<and>
     artwork a =
       \<lparr>oid = 2 * index a + 1, userData = UserData ''artwork'' (data a), children = []\<rparr>"

definition registry_ok :: "Artwork list \<Rightarrow> bool" where
  "registry_ok arts \<longleftrightarrow> (\<forall>i < length arts. built (arts ! i) \<and> index (arts ! i) = i)"

definition tags_owned :: "Artwork list \<Rightarrow> Object3D list \<Rightarrow> bool" where
  "tags_owned arts hits \<longleftrightarrow>
     (\<forall>obj \<in> set hits. is_artwork obj \<longrightarrow> (\<exists>a \<in> set arts. obj \<in> set (group_children a)))"

text \<open>
  A sample scene: a pane of glass in front of the image plane of artwork number \<open>i\<close>.
  The sample gallery is the one after \<open>init\<close> with the pointer captured.
\<close>

definition glass :: Object3D where
  "glass = \<lparr>oid = 100, userData = Empty, children = []\<rparr>"

definition looking_at :: "nat \<Rightarrow> raycaster" where
  "looking_at i = (\<lambda>m p t. [glass, artwork (createArtworks ARTWORKS ! i)])"

definition locked_gallery :: "raycaster \<Rightarrow> gallery" where
  "locked_gallery rc = dispatch rc (LockChangeDocument True) (init canvas page_document 800 600 True)"

section \<open>Vector facts\<close>

text \<open>
  The vector \<open>(sin a, 0, cos a)\<close> has length 1, so normalising it changes nothing: the
  forward and the right vector of \<open>update\<close> are unit vectors in the horizontal plane.
\<close>

lemma vy_normalize_zero: "vy v = 0 \<Longrightarrow> vy (normalize3 v) = 0"
  by (simp add: normalize3_def divideScalar_def multiplyScalar_def)

lemma unit_yaw_length: "length3 (Vector3_new (sin a) 0 (cos a)) = 1"
  by (simp add: length3_def lengthSq_def Vector3_new_def power2_eq_square [symmetric])

lemma normalize_unit: "length3 v = 1 \<Longrightarrow> normalize3 v = v"
  by (simp add: normalize3_def divideScalar_def multiplyScalar_def)

lemma forward_of_eq: "forward_of s = Vector3_new (sin (yaw_or_0 s)) 0 (cos (yaw_or_0 s))"
  unfolding forward_of_def by (rule normalize_unit) (rule unit_yaw_length)

lemma right_of_eq:
  "right_of s = Vector3_new (sin (yaw_or_0 s + pi / 2)) 0 (cos (yaw_or_0 s + pi / 2))"
  unfolding right_of_def by (rule normalize_unit) (rule unit_yaw_length)

lemma vy_raw_velocity: "vy (raw_velocity s) = 0"
  by (simp add: raw_velocity_def Let_def forward_of_eq right_of_eq Vector3_new_def
      add3_def sub3_def)

lemma update_vy: "vy (camera_position (update delta s)) = vy (camera_position s)"
  by (simp add: update_def Let_def updateTarget_def add3_def multiplyScalar_def
      vy_normalize_zero vy_raw_velocity)

lemma vy_forward_of: "vy (forward_of s) = 0"
  by (simp add: forward_of_eq Vector3_new_def)

lemma vy_right_of: "vy (right_of s) = 0"
  by (simp add: right_of_eq Vector3_new_def)

lemma sub3_add3_cancel: "sub3 (add3 p w) p = w"
  by (simp add: sub3_def add3_def)

lemma lengthSq_multiplyScalar: "lengthSq (multiplyScalar v k) = k * k * lengthSq v"
  by (simp add: lengthSq_def multiplyScalar_def algebra_simps)

lemma length3_multiplyScalar: "length3 (multiplyScalar v k) = \<bar>k\<bar> * length3 v"
  by (simp add: length3_def lengthSq_multiplyScalar real_sqrt_mult power2_eq_square [symmetric])

lemma length3_normalize:
  assumes "0 < lengthSq v"
  shows "length3 (normalize3 v) = 1"
proof -
  from assms have "0 < length3 v"
    by (simp add: length3_def)
  then show ?thesis
    by (simp add: normalize3_def divideScalar_def length3_multiplyScalar)
qed

lemma length3_forward_of: "length3 (forward_of s) = 1"
  by (simp add: forward_of_eq unit_yaw_length)

lemma length3_right_of: "length3 (right_of s) = 1"
  by (simp add: right_of_eq unit_yaw_length)

lemma right_of_cs: "right_of s = Vector3_new (cos (yaw_or_0 s)) 0 (- sin (yaw_or_0 s))"
  by (simp add: right_of_eq sin_add cos_add)

section \<open>The movement integrator\<close>

text \<open>
  The forward and the right vector are orthogonal, so the squared length of the
  accumulated velocity counts the pairs of opposite flags that do not cancel out.
\<close>

lemma unit_sq: "sin (a::real) * sin a + cos a * cos a = 1"
  by (simp add: power2_eq_square [symmetric])

lemma lengthSq_raw_velocity:
  "lengthSq (raw_velocity s) =
     (if moveForward s = moveBackward s then 0 else 1) +
     (if moveLeft s = moveRight s then 0 else 1)"
proof -
  have "sin (yaw_or_0 s) * sin (yaw_or_0 s) + cos (yaw_or_0 s) * cos (yaw_or_0 s) = 1"
    by (rule unit_sq)
  then have c: "cos (yaw_or_0 s) * cos (yaw_or_0 s) = 1 - sin (yaw_or_0 s) * sin (yaw_or_0 s)"
    by simp
  show ?thesis
    by (simp add: raw_velocity_def Let_def forward_of_eq right_of_cs Vector3_new_def
        add3_def sub3_def lengthSq_def algebra_simps c)
qed

lemma raw_velocity_moving:
  "0 < lengthSq (raw_velocity s) \<longleftrightarrow>
     (moveForward s \<noteq> moveBackward s \<or> moveLeft s \<noteq> moveRight s)"
  by (simp add: lengthSq_raw_velocity)

lemma displacement_locked:
  "isLocked s \<Longrightarrow> 0 < lengthSq (raw_velocity s) \<Longrightarrow>
   displacement delta s = multiplyScalar (normalize3 (raw_velocity s)) (moveSpeed s)"
  by (simp add: displacement_def update_def Let_def updateTarget_def sub3_add3_cancel)

lemma displacement_length:
  "isLocked s \<Longrightarrow> 0 < lengthSq (raw_velocity s) \<Longrightarrow>
   length3 (displacement delta s) = \<bar>moveSpeed s\<bar>"
  by (simp add: displacement_locked length3_multiplyScalar length3_normalize)

lemma raw_forward_only:
  "moveForward s \<Longrightarrow> \<not> moveBackward s \<Longrightarrow> \<not> moveLeft s \<Longrightarrow> \<not> moveRight s \<Longrightarrow>
   raw_velocity s = forward_of s"
  by (simp add: raw_velocity_def Let_def add3_def Vector3_new_def)

lemma raw_left_only:
  "moveLeft s \<Longrightarrow> \<not> moveBackward s \<Longrightarrow> \<not> moveForward s \<Longrightarrow> \<not> moveRight s \<Longrightarrow>
   raw_velocity s = multiplyScalar (right_of s) (- 1)"
  by (simp add: raw_velocity_def Let_def sub3_def Vector3_new_def multiplyScalar_def)

lemma normalize_neg_unit:
  "length3 v = 1 \<Longrightarrow> normalize3 (multiplyScalar v (- 1)) = multiplyScalar v (- 1)"
  by (rule normalize_unit) (simp add: length3_multiplyScalar)

section \<open>What the events leave alone\<close>

text \<open>
  No event changes the height of the camera, and from an unlocked state no event
  changes its position or the yaw. The controller of a gallery reached from \<open>init\<close> is
  in a state reached from the constructor by events of the controller.
\<close>

lemma step_camera_vy: "vy (camera_position (step e s)) = vy (camera_position s)"
  by (cases e)
     (simp_all add: onKeyDown_def onKeyUp_def onMouseMove_def update_vy lock_def unlock_def
        onUnlock_def onPointerlockChange_def onLock_def updateTarget_def Let_def)

lemma new_camera_vy: "vy (camera_position (PlayerController_new el doc)) = 1.6"
  by (simp add: PlayerController_new_def updateTarget_def Let_def Vector3_new_def)

lemma reachable_eye_height: "reachable s \<Longrightarrow> vy (camera_position s) = 1.6"
  by (induction rule: reachable.induct) (simp_all add: new_camera_vy step_camera_vy)

lemma reachable_walk:
  "reachable (step (Frame (1 / 60)) (step (KeyDown ''KeyW'') locked_player))"
  unfolding locked_player_def by (intro reachable_step reachable_new)

lemma unlocked_step_frame:
  "\<not> isLocked s \<Longrightarrow> camera_position (step e s) = camera_position s \<and> yaw (step e s) = yaw s"
  by (cases e)
     (simp_all add: onKeyDown_def onKeyUp_def onMouseMove_def update_def lock_def unlock_def
        onUnlock_def onPointerlockChange_def onLock_def Let_def)

lemma onKeyDown_isLocked: "\<not> isLocked s \<Longrightarrow> \<not> isLocked (onKeyDown code s)"
  by (simp add: onKeyDown_def unlock_def Let_def)

lemma onKeyDown_frame:
  "camera_position (onKeyDown code s) = camera_position s \<and> yaw (onKeyDown code s) = yaw s"
  by (simp add: onKeyDown_def unlock_def Let_def)

lemma onKeyUp_frame:
  "camera_position (onKeyUp code s) = camera_position s \<and> yaw (onKeyUp code s) = yaw s"
  by (simp add: onKeyUp_def)

lemma lock_frame:
  "camera_position (snd (lock s)) = camera_position s \<and> yaw (snd (lock s)) = yaw s \<and>
   isLocked (snd (lock s)) = isLocked s"
  by (simp add: lock_def Let_def)

lemma lock_and_catch_player: "player (lock_and_catch msg g) = snd (lock (player g))"
  by (simp add: lock_and_catch_def split: prod.splits promise.splits)

lemma unlocked_dispatch_frame:
  assumes "\<not> isLocked (player g)"
  shows "camera_position (player (dispatch rc e g)) = camera_position (player g) \<and>
         yaw (player (dispatch rc e g)) = yaw (player g)"
proof (cases e)
  case (Keydown code key)
  then show ?thesis
    using assms by (simp add: Let_def onKeyDown_isLocked onKeyDown_frame)
next
  case (Keyup code)
  then show ?thesis by (simp add: onKeyUp_frame)
next
  case (Mousemove ev)
  then show ?thesis using assms by (simp add: onMouseMove_def onPointerMove_def)
next
  case (CanvasClick ev)
  then show ?thesis
    using assms by (simp add: canvas_click_def lock_frame lock_and_catch_player)
next
  case (ContextMenu ev)
  then show ?thesis
    using assms by (simp add: canvas_contextmenu_def lock_frame lock_and_catch_player)
next
  case (AnimationFrame delta)
  then show ?thesis using assms by (simp add: update_def)
next
  case (LockChangeDocument b)
  then show ?thesis
    using assms unlocked_step_frame [of "player g" "PointerlockChangeDocument b"] by simp
next
  case LockChangeElement
  then show ?thesis
    using assms unlocked_step_frame [of "player g" PointerlockChangeElement] by simp
next
  case InfoTimeout
  then show ?thesis by simp
next
  case (Resize w h)
  then show ?thesis by simp
qed

lemma unlocked_run_frame:
  "stays_unlocked es s \<Longrightarrow>
   camera_position (fold step es s) = camera_position s \<and> yaw (fold step es s) = yaw s"
proof (induction es arbitrary: s)
  case Nil
  then show ?case by simp
next
  case (Cons e es)
  then have u: "\<not> isLocked s" and rest: "stays_unlocked es (step e s)"
    by simp_all
  from unlocked_step_frame [OF u, of e] Cons.IH [OF rest] show ?case
    by simp
qed

lemma unlock_is_step: "snd (unlock s) = step (KeyDown ''Escape'') s"
  by (simp add: onKeyDown_def)

lemma reachable_player_dispatch:
  assumes "reachable (player g)"
  shows "reachable (player (dispatch rc e g))"
proof (cases e)
  case (Keydown code key)
  have a: "reachable (onKeyDown code (player g))"
    using reachable_step [OF assms, of "KeyDown code"] by simp
  have b: "reachable (snd (unlock (onKeyDown code (player g))))"
    unfolding unlock_is_step by (rule reachable_step [OF a])
  have c: "reachable (onKeyDown code p)" if "reachable p" for p
    using reachable_step [OF that, of "KeyDown code"] by simp
  from Keydown a b c show ?thesis
    by (simp add: Let_def)
next
  case (Keyup code)
  have "reachable (onKeyUp code (onKeyUp code (player g)))"
    using reachable_step [OF reachable_step [OF assms, of "KeyUp code"], of "KeyUp code"] by simp
  with Keyup show ?thesis by simp
next
  case (Mousemove ev)
  have "reachable (onMouseMove ev (player g))"
    using reachable_step [OF assms, of "MouseMove ev"] by simp
  moreover have "player (onPointerMove rc ev g') = player g'" for g'
    by (simp add: onPointerMove_def Let_def split: option.splits)
  ultimately show ?thesis using Mousemove by simp
next
  case (CanvasClick ev)
  have l: "reachable (snd (lock p))" if "reachable p" for p
    using reachable_step [OF that, of Click] by simp
  have h: "player (handleArtworkClick rc ev g') = player g'" for g'
    by (simp add: handleArtworkClick_def Let_def showArtworkInfo_def split: option.splits)
  from CanvasClick l [OF l [OF assms]] l [OF assms] h show ?thesis
    by (simp add: canvas_click_def lock_and_catch_player)
next
  case (ContextMenu ev)
  have l: "reachable (snd (lock p))" if "reachable p" for p
    using reachable_step [OF that, of Click] by simp
  have h: "player (handleArtworkClick rc ev g') = player g'" for g'
    by (simp add: handleArtworkClick_def Let_def showArtworkInfo_def split: option.splits)
  from ContextMenu l [OF assms] assms h show ?thesis
    by (simp add: canvas_contextmenu_def lock_and_catch_player)
next
  case (AnimationFrame delta)
  with reachable_step [OF assms, of "Frame delta"] show ?thesis by simp
next
  case (LockChangeDocument b)
  with reachable_step [OF assms, of "PointerlockChangeDocument b"] show ?thesis by simp
next
  case LockChangeElement
  with reachable_step [OF assms, of PointerlockChangeElement] show ?thesis by simp
next
  case InfoTimeout
  with assms show ?thesis by simp
next
  case (Resize w h)
  with assms show ?thesis by simp
qed

lemma reachable_gallery_player: "reachable_gallery rc g \<Longrightarrow> reachable (player g)"
proof (induction rule: reachable_gallery.induct)
  case (reachable_init el doc w h page)
  show ?case by (simp add: init_def reachable_new)
next
  case (reachable_dispatch g e)
  then show ?case by (simp add: reachable_player_dispatch)
qed

lemma lock_unsupported:
  "\<not> requestPointerLock (domElement s) \<Longrightarrow> \<not> mozRequestPointerLock (domElement s) \<Longrightarrow>
   \<not> webkitRequestPointerLock (domElement s) \<Longrightarrow>
   lock s = (Rejected (Error ''Pointer Lock API not supported''), s)"
  by (simp add: lock_def Let_def)

section \<open>Sample states\<close>

text \<open>
  The flags and fields of the sample states, computed from the definitions.
\<close>

lemmas player_defs = locked_player_def onKeyDown_def PlayerController_new_def updateTarget_def
  onUnlock_def onPointerlockChange_def canvas_def page_document_def Let_def

lemma strafe_flags:
  "isLocked (step (KeyDown ''KeyD'') locked_player) \<and>
   moveLeft (step (KeyDown ''KeyD'') locked_player) \<and>
   \<not> moveForward (step (KeyDown ''KeyD'') locked_player) \<and>
   \<not> moveBackward (step (KeyDown ''KeyD'') locked_player) \<and>
   \<not> moveRight (step (KeyDown ''KeyD'') locked_player)"
  by (simp add: player_defs)

lemma strafe_fields:
  "camera_position (step (KeyDown ''KeyD'') locked_player) = Vector3_new 0 1.6 5 \<and>
   moveSpeed (step (KeyDown ''KeyD'') locked_player) = 0.1 \<and>
   right_of (step (KeyDown ''KeyD'') locked_player) = Vector3_new 1 0 0"
  by (simp add: player_defs right_of_eq yaw_or_0_def)

lemma diagonal_flags:
  "isLocked (step (KeyDown ''KeyA'') (step (KeyDown ''KeyW'') locked_player)) \<and>
   moveSpeed (step (KeyDown ''KeyA'') (step (KeyDown ''KeyW'') locked_player)) = 0.1 \<and>
   moveForward (step (KeyDown ''KeyA'') (step (KeyDown ''KeyW'') locked_player)) \<and>
   moveRight (step (KeyDown ''KeyA'') (step (KeyDown ''KeyW'') locked_player)) \<and>
   \<not> moveBackward (step (KeyDown ''KeyA'') (step (KeyDown ''KeyW'') locked_player)) \<and>
   \<not> moveLeft (step (KeyDown ''KeyA'') (step (KeyDown ''KeyW'') locked_player))"
  by (simp add: player_defs)

lemma pressed_before_lock:
  "\<not> isLocked (step (KeyDown ''KeyW'') (PlayerController_new canvas page_document)) \<and>
   moveForward (step (KeyDown ''KeyW'') (PlayerController_new canvas page_document)) \<and>
   \<not> moveBackward (step (KeyDown ''KeyW'') (PlayerController_new canvas page_document)) \<and>
   \<not> moveLeft (step (KeyDown ''KeyW'') (PlayerController_new canvas page_document)) \<and>
   \<not> moveRight (step (KeyDown ''KeyW'') (PlayerController_new canvas page_document)) \<and>
   moveSpeed (step (KeyDown ''KeyW'') (PlayerController_new canvas page_document)) = 0.1"
  by (simp add: onKeyDown_def PlayerController_new_def updateTarget_def Let_def)

lemma forward_flags:
  "isLocked (step (KeyDown ''KeyW'') locked_player) \<and>
   moveForward (step (KeyDown ''KeyW'') locked_player) \<and>
   \<not> moveBackward (step (KeyDown ''KeyW'') locked_player) \<and>
   \<not> moveLeft (step (KeyDown ''KeyW'') locked_player) \<and>
   \<not> moveRight (step (KeyDown ''KeyW'') locked_player) \<and>
   moveSpeed (step (KeyDown ''KeyW'') locked_player) = 0.1 \<and>
   forward_of (step (KeyDown ''KeyW'') locked_player) = Vector3_new 0 0 1"
  by (simp add: player_defs forward_of_eq yaw_or_0_def)

lemma walking_gallery:
  "player (dispatch (looking_at 0) (Keydown ''KeyW'' ''w'') (init canvas page_document 800 600 True))
     = onKeyDown ''KeyW'' (PlayerController_new canvas page_document)"
proof -
  have "\<not> isLocked (onKeyDown ''KeyW'' (PlayerController_new canvas page_document))"
    by (simp add: onKeyDown_def PlayerController_new_def updateTarget_def Let_def)
  then show ?thesis
    by (simp add: init_def Let_def)
qed

section \<open>The registry and the two passes\<close>

text \<open>
  \<open>createArtworks\<close> constructs entry \<open>i\<close> of the manifest as artwork \<open>i\<close>.
\<close>

lemma length_createArtworks: "length (createArtworks items) = length items"
  by (simp add: createArtworks_def)

lemma nth_createArtworks:
  "i < length items \<Longrightarrow>
   createArtworks items ! i = Artwork_new (items ! i) i (length items) None"
  by (simp add: createArtworks_def)

lemma Artwork_new_placement:
  "group_position (Artwork_new d i n r) =
     Vector3_new (sin ((real i / real n) * pi * 2) * (case r of None \<Rightarrow> 15 | Some a \<Rightarrow> a)) 1.6
       (cos ((real i / real n) * pi * 2) * (case r of None \<Rightarrow> 15 | Some a \<Rightarrow> a)) \<and>
   group_lookAt (Artwork_new d i n r) = Vector3_new 0 1.6 0 \<and>
   radius (Artwork_new d i n r) = (case r of None \<Rightarrow> 15 | Some a \<Rightarrow> a) \<and>
   data (Artwork_new d i n r) = d"
  by (simp add: Artwork_new_def Let_def)

lemma length_ARTWORKS: "length ARTWORKS = 6"
  by (simp add: ARTWORKS_def)

lemma half_turn: "sin (real 3 / real 6 * pi * 2) = 0 \<and> cos (real 3 / real 6 * pi * 2) = - 1"
  by simp

lemma placement_0: "group_position (Artwork_new d 0 6 (Some 15)) = Vector3_new 0 1.6 15"
  by (simp add: Artwork_new_placement)

lemma placement_3: "group_position (Artwork_new d 3 6 (Some 15)) = Vector3_new 0 1.6 (- 15)"
  by (simp add: Artwork_new_placement)



text \<open>
  \<open>find_index\<close> returns the first position that satisfies the predicate. In a registry
  that is in order the image plane of artwork \<open>j\<close> is owned by artwork \<open>j\<close> only, so the
  two loops stop at the same intersection when the tagged objects are owned.
\<close>

lemma find_index_None: "find_index P xs = None \<longleftrightarrow> (\<forall>x \<in> set xs. \<not> P x)"
  by (induction xs) auto

lemma find_index_Some:
  "find_index P xs = Some i \<Longrightarrow> i < length xs \<and> P (xs ! i) \<and> (\<forall>j < i. \<not> P (xs ! j))"
proof (induction xs arbitrary: i)
  case Nil
  then show ?case by simp
next
  case (Cons x xs)
  show ?case
  proof (cases "P x")
    case True
    with Cons.prems show ?thesis by simp
  next
    case False
    with Cons.prems obtain k where k: "find_index P xs = Some k" "i = Suc k"
      by auto
    from Cons.IH [OF k(1)] False k(2) show ?thesis
      by (auto simp add: nth_Cons split: nat.splits)
  qed
qed

lemma find_index_unique:
  assumes "j < length xs" and "P (xs ! j)" and "\<forall>i < length xs. P (xs ! i) \<longrightarrow> i = j"
  shows "find_index P xs = Some j"
proof (cases "find_index P xs")
  case None
  with assms(1,2) show ?thesis
    by (auto simp add: find_index_None)
next
  case (Some k)
  from find_index_Some [OF Some] assms(3) have "k = j"
    by blast
  with Some show ?thesis by simp
qed

lemma hoverPick_bound: "hoverPick arts hits = Some i \<Longrightarrow> i < length arts"
  by (induction hits) (auto split: if_splits option.splits dest: find_index_Some)

lemma owns_built:
  "built a \<Longrightarrow> owns a obj \<longleftrightarrow> (oid obj = 2 * index a \<or> oid obj = 2 * index a + 1)"
  by (auto simp add: built_def owns_def)

lemma tagged_child:
  assumes "built a" and "obj \<in> set (group_children a)" and "is_artwork obj"
  shows "obj = artwork a"
  using assms by (auto simp add: built_def is_artwork_def)

lemma pick_agree:
  assumes "registry_ok arts" and "tags_owned arts hits"
  shows "clickPick hits = map_option (\<lambda>i. data (arts ! i)) (hoverPick arts hits)"
  using assms(2)
proof (induction hits)
  case Nil
  then show ?case by simp
next
  case (Cons obj rest)
  from Cons.prems have rest: "tags_owned arts rest"
    by (simp add: tags_owned_def)
  show ?case
  proof (cases "is_artwork obj")
    case False
    then have "clickPick (obj # rest) = clickPick rest"
      by (simp add: is_artwork_def split: userData.splits)
    with False Cons.IH [OF rest] show ?thesis by simp
  next
    case True
    with Cons.prems obtain a where a: "a \<in> set arts" "obj \<in> set (group_children a)"
      by (auto simp add: tags_owned_def)
    then obtain j where j: "j < length arts" "a = arts ! j"
      by (auto simp add: in_set_conv_nth)
    with assms(1) have b: "built (arts ! j)" and ix: "index (arts ! j) = j"
      by (simp_all add: registry_ok_def)
    from tagged_child [OF b] a(2) j(2) True have obj: "obj = artwork (arts ! j)"
      by simp
    with b ix have oid: "oid obj = 2 * j + 1"
      and ud: "userData obj = UserData ''artwork'' (data (arts ! j))"
      by (simp_all add: built_def)
    have own_j: "owns (arts ! j) obj"
      using b ix oid by (simp add: owns_built)
    have uniq: "\<forall>i < length arts. owns (arts ! i) obj \<longrightarrow> i = j"
    proof (intro allI impI)
      fix i assume "i < length arts" and o: "owns (arts ! i) obj"
      with assms(1) have "built (arts ! i)" and "index (arts ! i) = i"
        by (simp_all add: registry_ok_def)
      with o oid show "i = j"
        by (simp add: owns_built) presburger
    qed
    have "find_index (\<lambda>art. owns art obj) arts = Some j"
      by (rule find_index_unique [OF j(1) own_j uniq])
    with True ud show ?thesis by simp
  qed
qed

text \<open>
  \<open>setHighlight\<close> changes the scale, the emissive colour and the hover flag only, so
  every handler keeps the registry in order.
\<close>

lemma setHighlight_fields:
  "data (setHighlight f a) = data a \<and> index (setHighlight f a) = index a \<and>
   group_children (setHighlight f a) = group_children a \<and>
   frame (setHighlight f a) = frame a \<and> artwork (setHighlight f a) = artwork a"
  by (simp add: setHighlight_def)

lemma built_setHighlight: "built (setHighlight f a) = built a"
  by (simp add: built_def setHighlight_fields)

lemma registry_ok_reset: "registry_ok arts \<Longrightarrow> registry_ok (map (setHighlight f) arts)"
  by (simp add: registry_ok_def built_setHighlight setHighlight_fields)

lemma tags_owned_reset: "tags_owned arts hits \<Longrightarrow> tags_owned (map (setHighlight f) arts) hits"
  by (auto simp add: tags_owned_def setHighlight_fields)

lemma registry_ok_update:
  assumes "registry_ok arts"
  shows "registry_ok (arts[i := setHighlight f (arts ! i)])"
proof (cases "i < length arts")
  case True
  with assms show ?thesis
    by (auto simp add: registry_ok_def built_setHighlight setHighlight_fields nth_list_update)
next
  case False
  then have "arts[i := setHighlight f (arts ! i)] = arts"
    by (simp add: not_less list_update_beyond)
  with assms show ?thesis by simp
qed

lemma built_new: "built (Artwork_new d i n r) \<and> index (Artwork_new d i n r) = i"
  by (simp add: built_def Artwork_new_def Let_def)

lemma registry_ok_createArtworks: "registry_ok (createArtworks items)"
  by (simp add: registry_ok_def length_createArtworks nth_createArtworks built_new)


lemma registry_ok_onPointerMove:
  "registry_ok (artworks g) \<Longrightarrow> registry_ok (artworks (onPointerMove rc e g))"
  by (auto simp add: onPointerMove_def Let_def registry_ok_reset registry_ok_update
      split: option.splits)

lemma artworks_showArtworkInfo: "artworks (showArtworkInfo t a g) = artworks g"
  by (simp add: showArtworkInfo_def)

lemma artworks_handleArtworkClick: "artworks (handleArtworkClick rc e g) = artworks g"
  by (simp add: handleArtworkClick_def Let_def artworks_showArtworkInfo split: option.splits)

lemma artworks_lock_and_catch: "artworks (lock_and_catch msg g) = artworks g"
  by (simp add: lock_and_catch_def split: prod.splits promise.splits)

lemma artworks_dispatch:
  "artworks (dispatch rc e g) = artworks g \<or>
   (\<exists>ev g'. e = Mousemove ev \<and> artworks g' = artworks g \<and> dispatch rc e g = onPointerMove rc ev g')"
proof (cases e)
  case (Mousemove ev)
  then show ?thesis
    by (intro disjI2 exI [of _ ev] exI [of _ "g\<lparr>player := onMouseMove ev (player g)\<rparr>"]) simp
qed (simp_all add: Let_def canvas_click_def canvas_contextmenu_def artworks_handleArtworkClick
      artworks_lock_and_catch)

lemma reachable_registry_ok: "reachable_gallery rc g \<Longrightarrow> registry_ok (artworks g)"
proof (induction rule: reachable_gallery.induct)
  case (reachable_init el doc w h page)
  then show ?case by (simp add: init_def registry_ok_createArtworks)
next
  case (reachable_dispatch g e)
  from artworks_dispatch [of rc e g] show ?case
  proof
    assume "artworks (dispatch rc e g) = artworks g"
    with reachable_dispatch.IH show ?thesis by simp
  next
    assume "\<exists>ev g'. e = Mousemove ev \<and> artworks g' = artworks g \<and>
              dispatch rc e g = onPointerMove rc ev g'"
    then obtain ev g' where "artworks g' = artworks g" "dispatch rc e g = onPointerMove rc ev g'"
      by blast
    with reachable_dispatch.IH registry_ok_onPointerMove [of g' rc ev] show ?thesis by simp
  qed
qed

text \<open>
  After the reset no artwork is highlighted, and writing one element of such a list
  leaves at most one highlighted.
\<close>

lemma filter_update_le:
  "filter P xs = [] \<Longrightarrow> length (filter P (xs[i := y])) \<le> Suc 0"
proof (induction xs arbitrary: i)
  case Nil
  then show ?case by simp
next
  case (Cons x xs)
  from Cons.prems have px: "\<not> P x" and rest: "filter P xs = []"
    by (auto split: if_splits)
  show ?case
  proof (cases i)
    case 0
    with rest show ?thesis by simp
  next
    case (Suc k)
    with px Cons.IH [OF rest, of k] show ?thesis by simp
  qed
qed

lemma reset_clears: "filter isHovered (map (setHighlight False) arts) = []"
  by (induction arts) (simp_all add: setHighlight_def)

lemma hover_pass_one:
  "isLocked (player g) \<Longrightarrow> length (filter isHovered (artworks (onPointerMove rc e g))) \<le> 1"
  by (simp add: onPointerMove_def Let_def reset_clears filter_update_le split: option.splits)

lemma onPointerMove_one:
  assumes "length (filter isHovered (artworks g)) \<le> 1"
  shows "length (filter isHovered (artworks (onPointerMove rc e g))) \<le> 1"
proof (cases "isLocked (player g)")
  case True
  then show ?thesis by (rule hover_pass_one)
next
  case False
  with assms show ?thesis by (simp add: onPointerMove_def)
qed

lemma new_not_hovered: "\<not> isHovered (Artwork_new d i n r)"
  by (simp add: Artwork_new_def Let_def)

lemma createArtworks_none: "filter isHovered (createArtworks items) = []"
  by (auto simp add: filter_empty_conv createArtworks_def new_not_hovered)

lemma reachable_one: "reachable_gallery rc g \<Longrightarrow> length (filter isHovered (artworks g)) \<le> 1"
proof (induction rule: reachable_gallery.induct)
  case (reachable_init el doc w h page)
  then show ?case by (simp add: init_def createArtworks_none)
next
  case (reachable_dispatch g e)
  from artworks_dispatch [of rc e g] show ?case
  proof
    assume "artworks (dispatch rc e g) = artworks g"
    with reachable_dispatch.IH show ?thesis by simp
  next
    assume "\<exists>ev g'. e = Mousemove ev \<and> artworks g' = artworks g \<and>
              dispatch rc e g = onPointerMove rc ev g'"
    then obtain ev g' where "artworks g' = artworks g" "dispatch rc e g = onPointerMove rc ev g'"
      by blast
    with reachable_dispatch.IH onPointerMove_one [of g' rc ev] show ?thesis by simp
  qed
qed

lemma dispatch_one:
  assumes "length (filter isHovered (artworks g)) \<le> 1"
  shows "length (filter isHovered (artworks (dispatch rc e g))) \<le> 1"
  using artworks_dispatch [of rc e g]
proof
  assume "artworks (dispatch rc e g) = artworks g"
  with assms show ?thesis by simp
next
  assume "\<exists>ev g'. e = Mousemove ev \<and> artworks g' = artworks g \<and>
            dispatch rc e g = onPointerMove rc ev g'"
  then obtain ev g' where "artworks g' = artworks g" "dispatch rc e g = onPointerMove rc ev g'"
    by blast
  with assms onPointerMove_one [of g' rc ev] show ?thesis by simp
qed


text \<open>
  The sample gallery and the sample scene, computed from the definitions.
\<close>

lemma upt_6: "[0..<6] = [0, 1, 2, 3, 4, 5]"
  by code_simp

lemma ARTWORKS_registry:
  "map index (createArtworks ARTWORKS) = [0, 1, 2, 3, 4, 5] \<and>
   map (oid \<circ> artwork) (createArtworks ARTWORKS) = [1, 3, 5, 7, 9, 11] \<and>
   map (oid \<circ> frame) (createArtworks ARTWORKS) = [0, 2, 4, 6, 8, 10] \<and>
   map isHovered (createArtworks ARTWORKS) = [False, False, False, False, False, False]"
  by (simp add: createArtworks_def ARTWORKS_def upt_6 Artwork_new_def Let_def)


lemma locked_gallery_fields:
  "isLocked (player (locked_gallery rc)) \<and> artworks (locked_gallery rc) = createArtworks ARTWORKS \<and>
   titleElement (locked_gallery rc) = Some ''The Death of Socrates'' \<and>
   artistElement (locked_gallery rc) = Some ''Jacques-Louis David'' \<and>
   infoPanel_visible (locked_gallery rc) = Some False"
  by (simp add: locked_gallery_def init_def onUnlock_def onPointerlockChange_def
      PlayerController_new_def updateTarget_def Let_def page_document_def ARTWORKS_def)

lemma hover_at_2:
  "hoverPick (map (setHighlight False) (createArtworks ARTWORKS))
     [glass, artwork (createArtworks ARTWORKS ! 2)] = Some 2"
  by (simp add: createArtworks_def ARTWORKS_def upt_6 Artwork_new_def Let_def setHighlight_def
      owns_def is_artwork_def glass_def)

lemma hovered_after_2:
  "map isHovered ((map (setHighlight False) (createArtworks ARTWORKS))
      [2 := setHighlight True (map (setHighlight False) (createArtworks ARTWORKS) ! 2)]) =
   [False, False, True, False, False, False]"
  by (simp add: createArtworks_def ARTWORKS_def upt_6 Artwork_new_def Let_def setHighlight_def)

lemma onPointerMove_artworks:
  "isLocked (player g) \<Longrightarrow>
   artworks (onPointerMove rc e g) =
     (case hoverTarget rc e g of
        None \<Rightarrow> map (setHighlight False) (artworks g)
      | Some i \<Rightarrow> (map (setHighlight False) (artworks g))
                   [i := setHighlight True (map (setHighlight False) (artworks g) ! i)])"
  by (simp add: onPointerMove_def hoverTarget_def Let_def split: option.splits)

lemma sample_target:
  "hoverTarget (looking_at 2) e
     (locked_gallery (looking_at 2)\<lparr>player := p\<rparr>) = Some 2"
  using locked_gallery_fields [of "looking_at 2"]
  by (simp add: hoverTarget_def intersectObjects_def looking_at_def hover_at_2
      del: hoverPick.simps)

lemma sample_hover:
  "map isHovered (artworks (dispatch (looking_at 2) (Mousemove (pointer_at 0 400 300))
      (locked_gallery (looking_at 2)))) = [False, False, True, False, False, False]"
proof -
  have l: "isLocked (onMouseMove (pointer_at 0 400 300) (player (locked_gallery (looking_at 2))))"
    using locked_gallery_fields [of "looking_at 2"] by (simp add: onMouseMove_def updateTarget_def Let_def)
  show ?thesis
    using l locked_gallery_fields [of "looking_at 2"] hovered_after_2
    by (simp add: onPointerMove_artworks sample_target)
qed


lemma isHovered_setHighlight: "isHovered (setHighlight f a) = f"
  by (simp add: setHighlight_def)

lemma hoverTarget_bound: "hoverTarget rc e g = Some i \<Longrightarrow> i < length (artworks g)"
  using hoverPick_bound [of "map (setHighlight False) (artworks g)" _ i]
  by (simp add: hoverTarget_def)

lemma targets_agree:
  assumes "registry_ok (artworks g)"
    and "tags_owned (artworks g) (intersectObjects rc (g\<lparr>mouse := ndc e g\<rparr>))"
  shows "clickTarget rc e g = map_option (\<lambda>i. data (artworks g ! i)) (hoverTarget rc e g)"
proof -
  let ?arts = "map (setHighlight False) (artworks g)"
  let ?hits = "intersectObjects rc (g\<lparr>mouse := ndc e g\<rparr>)"
  have "clickPick ?hits = map_option (\<lambda>i. data (?arts ! i)) (hoverPick ?arts ?hits)"
    using assms by (intro pick_agree registry_ok_reset tags_owned_reset)
  moreover have "map_option (\<lambda>i. data (?arts ! i)) (hoverPick ?arts ?hits) =
                 map_option (\<lambda>i. data (artworks g ! i)) (hoverPick ?arts ?hits)"
  proof (cases "hoverPick ?arts ?hits")
    case None
    then show ?thesis by simp
  next
    case (Some i)
    then have "i < length (artworks g)"
      using hoverPick_bound [of ?arts ?hits i] by simp
    with Some show ?thesis by (simp add: setHighlight_fields)
  qed
  ultimately show ?thesis
    by (simp add: clickTarget_def hoverTarget_def)
qed

lemma targets_none:
  assumes "registry_ok (artworks g)"
    and "tags_owned (artworks g) (intersectObjects rc (g\<lparr>mouse := ndc e g\<rparr>))"
  shows "hoverTarget rc e g = None \<longleftrightarrow> clickTarget rc e g = None"
  using targets_agree [OF assms] by simp

lemma hover_marks_target:
  assumes "isLocked (player g)" and "i < length (artworks g)"
  shows "isHovered (artworks (onPointerMove rc e g) ! i) \<longleftrightarrow> hoverTarget rc e g = Some i"
proof (cases "hoverTarget rc e g")
  case None
  with assms show ?thesis
    by (simp add: onPointerMove_artworks isHovered_setHighlight)
next
  case (Some k)
  then have "k < length (artworks g)"
    by (rule hoverTarget_bound)
  with Some assms show ?thesis
    by (auto simp add: onPointerMove_artworks isHovered_setHighlight nth_list_update)
qed

lemma click_shows_target:
  "isLocked (player g) \<Longrightarrow>
   handleArtworkClick rc e g =
     (case clickTarget rc e g of
        None \<Rightarrow> g\<lparr>mouse := ndc e g\<rparr>
      | Some d \<Rightarrow> showArtworkInfo (title d) (artist d) (g\<lparr>mouse := ndc e g\<rparr>))"
  by (simp add: handleArtworkClick_def clickTarget_def Let_def)


lemma sample_tags_owned:
  "tags_owned (createArtworks ARTWORKS) [glass, artwork (createArtworks ARTWORKS ! 2)]"
  by (simp add: tags_owned_def is_artwork_def glass_def createArtworks_def ARTWORKS_def upt_6
      Artwork_new_def Let_def)

lemma sample_data: "data (createArtworks ARTWORKS ! 2) = ARTWORKS ! 2"
  by (simp add: nth_createArtworks ARTWORKS_def Artwork_new_def Let_def)


section \<open>Binary64 facts\<close>

text \<open>
  \<open>bit_length\<close> is evaluated by its two cases. The yaw after pointer movements by 1, 8
  and -8 pixels is computed from the definitions. \<open>rotationSpeed64\<close> lies within half a
  unit in the last place of 0.002. Before rounding, the difference and the product are
  exact, so \<open>onMouseMove_yaw64\<close> is the expression of \<open>onMouseMove\<close> with a rounding after
  each operation, and \<open>round53\<close> returns a nearest number with the exponent it chose.
\<close>

lemma bit_length_0: "bit_length 0 = 0"
  by (simp add: bit_length.simps)

lemma bit_length_pos: "0 < n \<Longrightarrow> bit_length n = Suc (bit_length (n div 2))"
  by (subst bit_length.simps) simp

lemmas b64_eval = bit_length_0 bit_length_pos round53_def b64_sub_def b64_mul_def b64_of_int_def
  exact_sub_def exact_mul_def onMouseMove_yaw64_def rotationSpeed64_def Let_def

lemma yaw64_first: "yaw64_after_1 = Some \<lparr>significand = - 1152921504606847, exponent = - 59\<rparr>"
  by (simp add: yaw64_after_1_def b64_eval)

lemma yaw64_there: "onMouseMove_yaw64 True rotationSpeed64 (Some (b64_of_int 8)) yaw64_after_1
   = Some \<lparr>significand = - 5188146770730812, exponent = - 58\<rparr>"
  by (simp add: yaw64_first b64_eval)

lemma yaw64_back: "onMouseMove_yaw64 True rotationSpeed64 (Some (b64_of_int (- 8)))
     (onMouseMove_yaw64 True rotationSpeed64 (Some (b64_of_int 8)) yaw64_after_1)
   = Some \<lparr>significand = - 576460752303424, exponent = - 58\<rparr>"
  by (simp add: yaw64_first b64_eval)

lemma value_back: "b64_value \<lparr>significand = - 576460752303424, exponent = - 58\<rparr> = - 1152921504606848 / 2 ^ 59"
  by (simp add: b64_value_def power_int_minus)

lemma value_first: "b64_value \<lparr>significand = - 1152921504606847, exponent = - 59\<rparr> = - 1152921504606847 / 2 ^ 59"
  by (simp add: b64_value_def power_int_minus)

lemma rotationSpeed64_nearest: "\<bar>2 / 1000 - b64_value rotationSpeed64\<bar> < 1 / 2 ^ 62"
  by (simp add: b64_value_def rotationSpeed64_def power_int_minus)

lemma value_exact_mul: "b64_value (exact_mul a b) = b64_value a * b64_value b"
  by (simp add: b64_value_def exact_mul_def power_int_add)

lemma powi_split:
  "e \<le> f \<Longrightarrow> (2::real) powi f = 2 ^ nat (f - e) * 2 powi e"
proof -
  assume le: "e \<le> f"
  have "(2::real) powi f = 2 powi ((f - e) + e)" by simp
  also have "\<dots> = 2 powi (f - e) * 2 powi e"
    by (rule power_int_add) simp
  also have "2 powi (f - e) = (2::real) ^ nat (f - e)"
    using le by (simp add: power_int_def)
  finally show ?thesis .
qed

lemma value_exact_sub: "b64_value (exact_sub a b) = b64_value a - b64_value b"
proof -
  let ?e = "min (exponent a) (exponent b)"
  have a: "(2::real) powi exponent a = 2 ^ nat (exponent a - ?e) * 2 powi ?e"
    by (rule powi_split) simp
  have b: "(2::real) powi exponent b = 2 ^ nat (exponent b - ?e) * 2 powi ?e"
    by (rule powi_split) simp
  have "b64_value a - b64_value b =
          of_int (significand a) * (2 ^ nat (exponent a - ?e) * 2 powi ?e)
        - of_int (significand b) * (2 ^ nat (exponent b - ?e) * 2 powi ?e)"
    unfolding b64_value_def using a b by (simp only:)
  also have "\<dots> = b64_value (exact_sub a b)"
    unfolding b64_value_def exact_sub_def Let_def
    by (simp add: algebra_simps)
  finally show ?thesis by simp
qed

lemma bit_length_bounds: "0 < n \<Longrightarrow> 2 ^ (bit_length n - 1) \<le> n \<and> n < 2 ^ bit_length n"
proof (induction n rule: bit_length.induct)
  case (1 n)
  show ?case
  proof (cases "n div 2 = 0")
    case True
    with "1.prems" have "n = 1" by (simp add: div_eq_0_iff) 
    then show ?thesis by (simp add: bit_length_pos bit_length_0)
  next
    case False
    then have pos: "0 < n div 2" by simp
    from "1.prems" have n0: "n \<noteq> 0" by simp
    from "1.IH" [OF n0 pos] have ih: "2 ^ (bit_length (n div 2) - 1) \<le> n div 2"
      "n div 2 < 2 ^ bit_length (n div 2)" by simp_all
    from pos have b1: "0 < bit_length (n div 2)" by (simp add: bit_length_pos)
    have bl: "bit_length n = Suc (bit_length (n div 2))"
      using "1.prems" by (rule bit_length_pos)
    from b1 have e: "(2::nat) ^ bit_length (n div 2) = 2 * 2 ^ (bit_length (n div 2) - 1)"
      by (cases "bit_length (n div 2)") simp_all
    from ih(1) e have lo: "2 ^ bit_length (n div 2) \<le> n" by linarith
    from ih(2) have hi: "n < 2 * 2 ^ bit_length (n div 2)" by linarith
    from lo hi show ?thesis by (simp add: bl)
  qed
qed

lemma round53_fits: "bit_length (nat \<bar>significand a\<bar>) \<le> 53 \<Longrightarrow> round53 a = a"
  by (simp add: round53_def)

lemma round53_nearest:
  assumes "53 < bit_length (nat \<bar>significand a\<bar>)"
  shows "exponent (round53 a) = exponent a + (int (bit_length (nat \<bar>significand a\<bar>)) - 53) \<and>
         2 * \<bar>significand (round53 a) * 2 ^ (bit_length (nat \<bar>significand a\<bar>) - 53) - significand a\<bar>
           \<le> 2 ^ (bit_length (nat \<bar>significand a\<bar>) - 53)"
proof -
  define k where "k = bit_length (nat \<bar>significand a\<bar>) - 53"
  define m where "m = significand a"
  define q where "q = m div 2 ^ k"
  define r where "r = m mod 2 ^ k"
  define h :: int where "h = 2 ^ (k - 1)"
  from assms have k: "0 < k" "int (bit_length (nat \<bar>significand a\<bar>)) - 53 = int k"
    by (simp_all add: k_def)
  then have hk: "(2::int) ^ k = 2 * h"
    by (cases k) (simp_all add: h_def)
  have m: "m = q * 2 ^ k + r"
    unfolding q_def r_def by (rule div_mult_mod_eq [symmetric])
  have r: "0 \<le> r" "r < 2 ^ k"
    by (simp_all add: r_def)
  have rd: "round53 a =
      \<lparr>significand = (if r < h then q else if h < r then q + 1 else if even q then q else q + 1),
       exponent = exponent a + int k\<rparr>"
    using k by (simp add: round53_def Let_def q_def r_def h_def m_def)
  have "2 * \<bar>(if r < h then q else if h < r then q + 1 else if even q then q else q + 1) * 2 ^ k - m\<bar>
          \<le> 2 ^ k"
    using r hk by (auto simp add: m algebra_simps)
  with rd k show ?thesis
    by (simp add: k_def [symmetric] m_def)
qed

text \<open>
  In binary64 the step forward from \<open>z = 5\<close> at yaw 0 gives \<open>5.1\<close> rounded, and the
  displacement applied to the camera is \<open>112589990684262 / 2 ^ 50\<close>, not the speed.
\<close>

lemma moveSpeed64_nearest: "\<bar>1 / 10 - b64_value moveSpeed64\<bar> < 1 / 2 ^ 57"
  by (simp add: b64_value_def moveSpeed64_def power_int_minus)

lemma value_exact_add: "b64_value (exact_add a b) = b64_value a + b64_value b"
proof -
  let ?e = "min (exponent a) (exponent b)"
  have a: "(2::real) powi exponent a = 2 ^ nat (exponent a - ?e) * 2 powi ?e"
    by (rule powi_split) simp
  have b: "(2::real) powi exponent b = 2 ^ nat (exponent b - ?e) * 2 powi ?e"
    by (rule powi_split) simp
  have "b64_value a + b64_value b =
          of_int (significand a) * (2 ^ nat (exponent a - ?e) * 2 powi ?e)
        + of_int (significand b) * (2 ^ nat (exponent b - ?e) * 2 powi ?e)"
    unfolding b64_value_def using a b by (simp only:)
  also have "\<dots> = b64_value (exact_add a b)"
    unfolding b64_value_def exact_add_def Let_def
    by (simp add: algebra_simps)
  finally show ?thesis by simp
qed

lemma forward_step_z: "forward_step_z64 moveSpeed64 (b64_of_int 5)
   = \<lparr>significand = 5742089524897382, exponent = - 50\<rparr>"
  by (simp add: forward_step_z64_def moveSpeed64_def b64_add_def exact_add_def b64_eval)

lemma forward_step_rounds:
  "b64_value (forward_step_z64 moveSpeed64 (b64_of_int 5)) - b64_value (b64_of_int 5)
     = 112589990684262 / 2 ^ 50 \<and>
   b64_value moveSpeed64 = 3602879701896397 / 2 ^ 55 \<and>
   b64_value (forward_step_z64 moveSpeed64 (b64_of_int 5)) - b64_value (b64_of_int 5)
     \<noteq> b64_value moveSpeed64"
proof -
  have z: "b64_value (forward_step_z64 moveSpeed64 (b64_of_int 5)) = 5742089524897382 / 2 ^ 50"
    unfolding forward_step_z by (simp add: b64_value_def power_int_minus)
  have f: "b64_value (b64_of_int 5) = 5"
    by (simp add: b64_eval b64_value_def)
  have a: "b64_value (forward_step_z64 moveSpeed64 (b64_of_int 5)) - b64_value (b64_of_int 5)
     = 112589990684262 / 2 ^ 50"
    unfolding z f by simp
  have b: "b64_value moveSpeed64 = 3602879701896397 / 2 ^ 55"
    by (simp add: b64_value_def moveSpeed64_def power_int_minus)
  show ?thesis
    unfolding a b by simp
qed

lemma onMouseMove_yaw:
  "isLocked s \<Longrightarrow> movementX e = Some d \<Longrightarrow>
   yaw (onMouseMove e s) = Some (yaw_or_0 s - d * rotationSpeed s) \<and>
   isLocked (onMouseMove e s) \<and> rotationSpeed (onMouseMove e s) = rotationSpeed s"
  by (simp add: onMouseMove_def updateTarget_def Let_def)

lemma turned_player:
  "isLocked (step (MouseMove (pointer_at 1 0 0)) locked_player) \<and>
   yaw (step (MouseMove (pointer_at 1 0 0)) locked_player) = Some (- 0.002)"
  by (simp add: player_defs onMouseMove_def pointer_at_def yaw_or_0_def)

section \<open>The claims about the controller\<close>

text \<open>
  C10. Every call of \<open>update\<close> leaves the camera's y coordinate as it was: the forward
  and the right vector have no vertical component, so the displacement has none. The
  constructor puts the camera at height 1.6, and in every state reached from it by
  events of the controller or of the page the height is still 1.6.
\<close>

theorem update_keeps_eye_height:
  "vy (forward_of s) = 0 \<and> vy (right_of s) = 0 \<and>
   vy (displacement delta s) = 0 \<and>
   vy (camera_position (update delta s)) = vy (camera_position s) \<and>
   (reachable s \<longrightarrow> vy (camera_position s) = 1.6) \<and>
   (reachable_gallery rc g \<longrightarrow> vy (camera_position (player g)) = 1.6)"
  using reachable_eye_height [of s] reachable_eye_height [OF reachable_gallery_player, of rc g]
  by (simp add: vy_forward_of vy_right_of update_vy displacement_def sub3_def)

theorem update_keeps_eye_height_witness:
  "reachable (step (Frame (1 / 60)) (step (KeyDown ''KeyW'') locked_player)) \<and>
   vy (camera_position (step (Frame (1 / 60)) (step (KeyDown ''KeyW'') locked_player))) = 1.6 \<and>
   vz (camera_position (step (Frame (1 / 60)) (step (KeyDown ''KeyW'') locked_player))) = 5.1 \<and>
   reachable_gallery (looking_at 2)
     (dispatch (looking_at 2) (AnimationFrame (1 / 60)) (locked_gallery (looking_at 2))) \<and>
   vy (camera_position (player
     (dispatch (looking_at 2) (AnimationFrame (1 / 60)) (locked_gallery (looking_at 2))))) = 1.6"
proof -
  have z: "vz (camera_position (step (Frame (1 / 60)) (step (KeyDown ''KeyW'') locked_player))) = 5.1"
    by (simp add: locked_player_def onKeyDown_def update_def Let_def raw_velocity_def
        forward_of_eq right_of_eq yaw_or_0_def PlayerController_new_def updateTarget_def
        onUnlock_def onPointerlockChange_def canvas_def page_document_def
        Vector3_new_def add3_def sub3_def multiplyScalar_def normalize3_def divideScalar_def
        length3_def lengthSq_def)
  have g: "reachable_gallery (looking_at 2)
     (dispatch (looking_at 2) (AnimationFrame (1 / 60)) (locked_gallery (looking_at 2)))"
    unfolding locked_gallery_def by (intro reachable_dispatch reachable_init)
  show ?thesis
    using update_keeps_eye_height
      [of "step (Frame (1 / 60)) (step (KeyDown ''KeyW'') locked_player)" 0 "looking_at 2"
          "dispatch (looking_at 2) (AnimationFrame (1 / 60)) (locked_gallery (looking_at 2))"]
      reachable_walk z g
    by blast
qed

text \<open>
  C8. While the controller is unlocked neither the camera position nor the yaw changes:
  \<open>update\<close> returns the state as it is, a pointer movement is ignored, and no event of
  the controller or of the page moves the camera or turns it, whatever the frame time,
  the movement flags and the pointer movement are. Over a run of events during which
  the controller stays unlocked the position and the yaw at the end are those at the
  start.
\<close>

theorem unlocked_controller_is_still:
  assumes "\<not> isLocked s"
  shows "update delta s = s \<and> onMouseMove event s = s \<and>
         camera_position (step e s) = camera_position s \<and> yaw (step e s) = yaw s \<and>
         (stays_unlocked es s \<longrightarrow>
            camera_position (fold step es s) = camera_position s \<and>
            yaw (fold step es s) = yaw s) \<and>
         (player g = s \<longrightarrow>
            camera_position (player (dispatch rc pe g)) = camera_position s \<and>
            yaw (player (dispatch rc pe g)) = yaw s)"
  using assms unlocked_step_frame [of s e] unlocked_dispatch_frame [of g rc pe]
    unlocked_run_frame [of es s]
  by (auto simp add: update_def onMouseMove_def)

theorem unlocked_controller_is_still_witness:
  "\<not> isLocked (onKeyDown ''KeyW'' (PlayerController_new canvas page_document)) \<and>
   moveForward (onKeyDown ''KeyW'' (PlayerController_new canvas page_document)) \<and>
   update (1 / 60) (onKeyDown ''KeyW'' (PlayerController_new canvas page_document))
     = onKeyDown ''KeyW'' (PlayerController_new canvas page_document) \<and>
   onMouseMove (pointer_at 8 100 100) (onKeyDown ''KeyW'' (PlayerController_new canvas page_document))
     = onKeyDown ''KeyW'' (PlayerController_new canvas page_document) \<and>
   stays_unlocked [Frame (1 / 60), MouseMove (pointer_at 8 100 100), KeyDown ''KeyA'']
     (onKeyDown ''KeyW'' (PlayerController_new canvas page_document)) \<and>
   camera_position
     (fold step [Frame (1 / 60), MouseMove (pointer_at 8 100 100), KeyDown ''KeyA'']
        (onKeyDown ''KeyW'' (PlayerController_new canvas page_document)))
     = Vector3_new 0 1.6 5 \<and>
   camera_position (player (dispatch (looking_at 0) (AnimationFrame (1 / 60))
      (dispatch (looking_at 0) (Keydown ''KeyW'' ''w'') (init canvas page_document 800 600 True))))
     = Vector3_new 0 1.6 5"
proof -
  have u: "\<not> isLocked (onKeyDown ''KeyW'' (PlayerController_new canvas page_document))"
    by (simp add: onKeyDown_def PlayerController_new_def updateTarget_def Let_def)
  have f: "moveForward (onKeyDown ''KeyW'' (PlayerController_new canvas page_document))"
    by (simp add: onKeyDown_def PlayerController_new_def updateTarget_def Let_def)
  have r: "stays_unlocked [Frame (1 / 60), MouseMove (pointer_at 8 100 100), KeyDown ''KeyA'']
     (onKeyDown ''KeyW'' (PlayerController_new canvas page_document))"
    using u by (simp add: update_def onMouseMove_def onKeyDown_def)
  have p: "camera_position (onKeyDown ''KeyW'' (PlayerController_new canvas page_document))
             = Vector3_new 0 1.6 5"
    by (simp add: onKeyDown_def PlayerController_new_def updateTarget_def Let_def)
  note t = unlocked_controller_is_still [OF u, of "1 / 60" "pointer_at 8 100 100" "Frame 0"
      "[Frame (1 / 60), MouseMove (pointer_at 8 100 100), KeyDown ''KeyA'']"
      "dispatch (looking_at 0) (Keydown ''KeyW'' ''w'') (init canvas page_document 800 600 True)"
      "looking_at 0" "AnimationFrame (1 / 60)"]
  have a: "update (1 / 60) (onKeyDown ''KeyW'' (PlayerController_new canvas page_document))
     = onKeyDown ''KeyW'' (PlayerController_new canvas page_document)"
    using t by blast
  have b: "onMouseMove (pointer_at 8 100 100)
       (onKeyDown ''KeyW'' (PlayerController_new canvas page_document))
     = onKeyDown ''KeyW'' (PlayerController_new canvas page_document)"
    using t by blast
  have "camera_position
     (fold step [Frame (1 / 60), MouseMove (pointer_at 8 100 100), KeyDown ''KeyA'']
        (onKeyDown ''KeyW'' (PlayerController_new canvas page_document)))
     = camera_position (onKeyDown ''KeyW'' (PlayerController_new canvas page_document))"
    using t r by blast
  then have c: "camera_position
     (fold step [Frame (1 / 60), MouseMove (pointer_at 8 100 100), KeyDown ''KeyA'']
        (onKeyDown ''KeyW'' (PlayerController_new canvas page_document)))
     = Vector3_new 0 1.6 5"
    using p by (rule trans)
  have "camera_position (player (dispatch (looking_at 0) (AnimationFrame (1 / 60))
      (dispatch (looking_at 0) (Keydown ''KeyW'' ''w'') (init canvas page_document 800 600 True))))
     = camera_position (onKeyDown ''KeyW'' (PlayerController_new canvas page_document))"
    using t walking_gallery by blast
  then have d: "camera_position (player (dispatch (looking_at 0) (AnimationFrame (1 / 60))
      (dispatch (looking_at 0) (Keydown ''KeyW'' ''w'') (init canvas page_document 800 600 True))))
     = Vector3_new 0 1.6 5"
    using p by (rule trans)
  show ?thesis
    by (intro conjI) (rule u f a b r c d)+
qed

text \<open>
  C9. When the canvas offers no way to request the pointer, \<open>lock\<close> returns a promise
  rejected with the error "Pointer Lock API not supported" and leaves the controller
  exactly as it was: no listener is registered, nothing is requested and the lock state
  is untouched. The click handler of the gallery, which calls \<open>lock\<close> when the
  controller is unlocked, logs the error and changes nothing else, and so does the whole
  delivery of a left click on the canvas, which calls \<open>lock\<close> once more for the
  controller's own listener.
\<close>

theorem lock_unsupported_is_rejected:
  assumes "\<not> requestPointerLock (domElement (player g))"
    and "\<not> mozRequestPointerLock (domElement (player g))"
    and "\<not> webkitRequestPointerLock (domElement (player g))"
  shows "lock (player g) = (Rejected (Error ''Pointer Lock API not supported''), player g) \<and>
         (\<not> isLocked (player g) \<longrightarrow> button event = 0 \<longrightarrow>
            canvas_click rc event g =
              g\<lparr>console := console g @
                   [(''Failed to lock pointer:'', Error ''Pointer Lock API not supported'')]\<rparr> \<and>
            dispatch rc (CanvasClick event) g =
              g\<lparr>console := console g @
                   [(''Failed to lock pointer:'', Error ''Pointer Lock API not supported'')]\<rparr>)"
  using assms by (simp add: lock_unsupported canvas_click_def lock_and_catch_def)

theorem lock_unsupported_is_rejected_witness:
  "lock (PlayerController_new bare_canvas page_document) =
     (Rejected (Error ''Pointer Lock API not supported''),
      PlayerController_new bare_canvas page_document) \<and>
   \<not> isLocked (snd (lock (PlayerController_new bare_canvas page_document))) \<and>
   player (canvas_click (\<lambda>m p t. []) (pointer_at 0 100 100)
            (init bare_canvas page_document 800 600 True))
     = PlayerController_new bare_canvas page_document \<and>
   console (canvas_click (\<lambda>m p t. []) (pointer_at 0 100 100)
             (init bare_canvas page_document 800 600 True))
     = [(''Failed to lock pointer:'', Error ''Pointer Lock API not supported'')]"
  using lock_unsupported_is_rejected
    [of "init bare_canvas page_document 800 600 True" "pointer_at 0 100 100" "\<lambda>m p t. []"]
  by (simp add: init_def PlayerController_new_def updateTarget_def Let_def bare_canvas_def
      pointer_at_def)

text \<open>
  C2, as amended. With the controller locked and only the \<open>moveLeft\<close> flag set, one call
  of \<open>update\<close> subtracts the right vector (the facing rotated by a quarter turn), scaled
  by the speed, from the camera position, for every yaw and speed. The claim as stated,
  that this flag adds the right vector, fails: at yaw 0 and speed 0.1 the camera goes
  from \<open>(0, 1.6, 5)\<close> to \<open>(-0.1, 1.6, 5)\<close>, not to \<open>(0.1, 1.6, 5)\<close>.
\<close>

theorem moveLeft_subtracts_right:
  assumes "isLocked s" and "moveLeft s"
    and "\<not> moveForward s" and "\<not> moveBackward s" and "\<not> moveRight s"
  shows "camera_position (update delta s) =
           sub3 (camera_position s) (multiplyScalar (right_of s) (moveSpeed s))"
proof -
  have raw: "raw_velocity s = multiplyScalar (right_of s) (- 1)"
    using assms by (simp add: raw_left_only)
  have pos: "0 < lengthSq (raw_velocity s)"
    using assms by (simp add: raw_velocity_moving)
  have n: "normalize3 (raw_velocity s) = multiplyScalar (right_of s) (- 1)"
    unfolding raw by (rule normalize_neg_unit) (rule length3_right_of)
  show ?thesis
    using assms(1) pos
    by (simp add: update_def Let_def updateTarget_def n add3_def sub3_def multiplyScalar_def)
qed

theorem moveLeft_subtracts_right_witness:
  "camera_position (update (1 / 60) (step (KeyDown ''KeyD'') locked_player)) =
     Vector3_new (- 0.1) 1.6 5"
  using moveLeft_subtracts_right [of "step (KeyDown ''KeyD'') locked_player" "1 / 60"]
    strafe_flags strafe_fields
  by (simp add: sub3_def multiplyScalar_def Vector3_new_def)

theorem moveLeft_adds_right_counterexample:
  "isLocked (step (KeyDown ''KeyD'') locked_player) \<and>
   moveLeft (step (KeyDown ''KeyD'') locked_player) \<and>
   \<not> moveForward (step (KeyDown ''KeyD'') locked_player) \<and>
   \<not> moveBackward (step (KeyDown ''KeyD'') locked_player) \<and>
   \<not> moveRight (step (KeyDown ''KeyD'') locked_player) \<and>
   camera_position (update (1 / 60) (step (KeyDown ''KeyD'') locked_player)) \<noteq>
     add3 (camera_position (step (KeyDown ''KeyD'') locked_player))
       (multiplyScalar (right_of (step (KeyDown ''KeyD'') locked_player))
          (moveSpeed (step (KeyDown ''KeyD'') locked_player)))"
proof -
  have a: "camera_position (update (1 / 60) (step (KeyDown ''KeyD'') locked_player)) =
     Vector3_new (- 0.1) 1.6 5"
    by (simp add: player_defs update_def raw_velocity_def forward_of_eq right_of_eq yaw_or_0_def
        Vector3_new_def add3_def sub3_def multiplyScalar_def normalize3_def divideScalar_def
        length3_def lengthSq_def)
  have b: "add3 (camera_position (step (KeyDown ''KeyD'') locked_player))
       (multiplyScalar (right_of (step (KeyDown ''KeyD'') locked_player))
          (moveSpeed (step (KeyDown ''KeyD'') locked_player))) = Vector3_new 0.1 1.6 5"
    using strafe_fields by (simp add: add3_def multiplyScalar_def Vector3_new_def)
  have c: "Vector3_new (- 0.1) 1.6 5 \<noteq> Vector3_new 0.1 1.6 5"
    by (simp add: Vector3_new_def)
  show ?thesis using strafe_flags a b c by simp
qed

text \<open>
  C3, as amended. While the controller is locked, for every yaw and speed, whenever
  the flags do not cancel out the displacement applied by one call of \<open>update\<close> has, in
  exact arithmetic, the length of the speed: the absolute value of \<open>moveSpeed\<close>, which is
  \<open>moveSpeed\<close> itself for a speed that is not negative. With only \<open>moveForward\<close> set the
  displacement is the speed times the unit facing vector. With \<open>moveForward\<close> and one
  strafing flag set the accumulated vector has length \<open>sqrt 2\<close>, and the displacement
  still has the length of the speed. The claim as stated, without the lock, fails: with
  the forward key pressed before the pointer is captured \<open>update\<close> applies no
  displacement at all. In binary64 arithmetic the equality holds up to rounding only.
\<close>

theorem displacement_has_speed_magnitude:
  assumes "isLocked s"
  shows "(moveForward s \<noteq> moveBackward s \<or> moveLeft s \<noteq> moveRight s \<longrightarrow>
            length3 (displacement delta s) = \<bar>moveSpeed s\<bar> \<and>
            (0 \<le> moveSpeed s \<longrightarrow> length3 (displacement delta s) = moveSpeed s)) \<and>
         (moveForward s \<and> \<not> moveBackward s \<and> \<not> moveLeft s \<and> \<not> moveRight s \<longrightarrow>
            displacement delta s = multiplyScalar (forward_of s) (moveSpeed s) \<and>
            length3 (forward_of s) = 1) \<and>
         (moveForward s \<and> \<not> moveBackward s \<and> moveLeft s \<noteq> moveRight s \<longrightarrow>
            length3 (raw_velocity s) = sqrt 2 \<and>
            (0 \<le> moveSpeed s \<longrightarrow> length3 (displacement delta s) = moveSpeed s))"
proof (intro conjI impI)
  assume "moveForward s \<noteq> moveBackward s \<or> moveLeft s \<noteq> moveRight s"
  then have pos: "0 < lengthSq (raw_velocity s)"
    by (simp add: raw_velocity_moving)
  with assms show len: "length3 (displacement delta s) = \<bar>moveSpeed s\<bar>"
    by (rule displacement_length)
  assume "0 \<le> moveSpeed s"
  with len show "length3 (displacement delta s) = moveSpeed s"
    by simp
next
  assume f: "moveForward s \<and> \<not> moveBackward s \<and> \<not> moveLeft s \<and> \<not> moveRight s"
  then have raw: "raw_velocity s = forward_of s"
    by (simp add: raw_forward_only)
  from f have "0 < lengthSq (raw_velocity s)"
    by (simp add: raw_velocity_moving)
  with assms have "displacement delta s = multiplyScalar (normalize3 (raw_velocity s)) (moveSpeed s)"
    by (rule displacement_locked)
  then show "displacement delta s = multiplyScalar (forward_of s) (moveSpeed s)"
    by (simp add: raw normalize_unit length3_forward_of)
next
  show "length3 (forward_of s) = 1"
    by (rule length3_forward_of)
next
  assume d: "moveForward s \<and> \<not> moveBackward s \<and> moveLeft s \<noteq> moveRight s"
  then show "length3 (raw_velocity s) = sqrt 2"
    by (simp add: length3_def lengthSq_raw_velocity)
next
  assume d: "moveForward s \<and> \<not> moveBackward s \<and> moveLeft s \<noteq> moveRight s"
    and n: "0 \<le> moveSpeed s"
  from d have "0 < lengthSq (raw_velocity s)"
    by (simp add: raw_velocity_moving)
  with assms have "length3 (displacement delta s) = \<bar>moveSpeed s\<bar>"
    by (rule displacement_length)
  with n show "length3 (displacement delta s) = moveSpeed s"
    by simp
qed

theorem displacement_has_speed_magnitude_witness:
  "isLocked (step (KeyDown ''KeyA'') (step (KeyDown ''KeyW'') locked_player)) \<and>
   0 \<le> moveSpeed (step (KeyDown ''KeyA'') (step (KeyDown ''KeyW'') locked_player)) \<and>
   length3 (displacement (1 / 60) (step (KeyDown ''KeyA'') (step (KeyDown ''KeyW'') locked_player)))
     = 0.1 \<and>
   length3 (raw_velocity (step (KeyDown ''KeyA'') (step (KeyDown ''KeyW'') locked_player))) = sqrt 2 \<and>
   isLocked (step (KeyDown ''KeyW'') locked_player) \<and>
   displacement (1 / 60) (step (KeyDown ''KeyW'') locked_player) = Vector3_new 0 0 0.1"
proof -
  have a: "isLocked (step (KeyDown ''KeyA'') (step (KeyDown ''KeyW'') locked_player)) \<and>
     0 \<le> moveSpeed (step (KeyDown ''KeyA'') (step (KeyDown ''KeyW'') locked_player)) \<and>
     length3 (displacement (1 / 60) (step (KeyDown ''KeyA'') (step (KeyDown ''KeyW'') locked_player)))
       = 0.1 \<and>
     length3 (raw_velocity (step (KeyDown ''KeyA'') (step (KeyDown ''KeyW'') locked_player))) = sqrt 2"
    using displacement_has_speed_magnitude
      [of "step (KeyDown ''KeyA'') (step (KeyDown ''KeyW'') locked_player)" "1 / 60"]
      diagonal_flags
    by simp
  have b: "displacement (1 / 60) (step (KeyDown ''KeyW'') locked_player) = Vector3_new 0 0 0.1"
    using displacement_has_speed_magnitude [of "step (KeyDown ''KeyW'') locked_player" "1 / 60"]
      forward_flags
    by (simp add: multiplyScalar_def Vector3_new_def)
  from a b forward_flags show ?thesis
    by blast
qed

theorem displacement_unlocked_counterexample:
  "reachable (step (KeyDown ''KeyW'') (PlayerController_new canvas page_document)) \<and>
   moveForward (step (KeyDown ''KeyW'') (PlayerController_new canvas page_document)) \<and>
   \<not> moveBackward (step (KeyDown ''KeyW'') (PlayerController_new canvas page_document)) \<and>
   \<not> moveLeft (step (KeyDown ''KeyW'') (PlayerController_new canvas page_document)) \<and>
   \<not> moveRight (step (KeyDown ''KeyW'') (PlayerController_new canvas page_document)) \<and>
   moveSpeed (step (KeyDown ''KeyW'') (PlayerController_new canvas page_document)) = 0.1 \<and>
   displacement (1 / 60) (step (KeyDown ''KeyW'') (PlayerController_new canvas page_document))
     = Vector3_new 0 0 0 \<and>
   length3 (displacement (1 / 60) (step (KeyDown ''KeyW'') (PlayerController_new canvas page_document)))
     \<noteq> moveSpeed (step (KeyDown ''KeyW'') (PlayerController_new canvas page_document))"
proof -
  have r: "reachable (step (KeyDown ''KeyW'') (PlayerController_new canvas page_document))"
    by (intro reachable_step reachable_new)
  have u: "\<not> isLocked (step (KeyDown ''KeyW'') (PlayerController_new canvas page_document))"
    using pressed_before_lock by blast
  have d: "displacement (1 / 60) (step (KeyDown ''KeyW'') (PlayerController_new canvas page_document))
     = Vector3_new 0 0 0"
    using u by (simp add: displacement_def update_def sub3_def Vector3_new_def)
  have l: "length3 (displacement (1 / 60) (step (KeyDown ''KeyW'') (PlayerController_new canvas page_document)))
     \<noteq> moveSpeed (step (KeyDown ''KeyW'') (PlayerController_new canvas page_document))"
    unfolding d using pressed_before_lock
    by (simp add: length3_def lengthSq_def Vector3_new_def)
  from r pressed_before_lock d l show ?thesis
    by blast
qed

text \<open>
  C7, as amended. In exact arithmetic a pointer movement is purely additive and
  reversible: while the controller is locked a movement by \<open>d\<close> subtracts \<open>d\<close> times the
  sensitivity from the yaw, and a movement by \<open>d\<close> followed by one by \<open>-d\<close> restores the
  yaw exactly, for every yaw and every \<open>d\<close>. In binary64 arithmetic, which the program
  runs on, each of the two subtractions is rounded and the claim as stated fails: after
  movements by 1, by 8 and by -8 pixels the yaw is \<open>-1152921504606848 / 2 ^ 59\<close>, not the
  \<open>-1152921504606847 / 2 ^ 59\<close> that it was after the first movement.
\<close>

theorem pointer_delta_reversible:
  assumes "isLocked s" and "movementX e1 = Some d" and "movementX e2 = Some (- d)"
  shows "yaw (onMouseMove e1 s) = Some (yaw_or_0 s - d * rotationSpeed s) \<and>
         yaw_or_0 (onMouseMove e2 (onMouseMove e1 s)) = yaw_or_0 s \<and>
         (yaw s = Some y \<longrightarrow> yaw (onMouseMove e2 (onMouseMove e1 s)) = Some y)"
proof -
  from onMouseMove_yaw [OF assms(1,2)]
  have 1: "yaw (onMouseMove e1 s) = Some (yaw_or_0 s - d * rotationSpeed s)"
    and l: "isLocked (onMouseMove e1 s)"
    and r: "rotationSpeed (onMouseMove e1 s) = rotationSpeed s"
    by simp_all
  from onMouseMove_yaw [OF l assms(3)] 1 r
  have 2: "yaw (onMouseMove e2 (onMouseMove e1 s)) = Some (yaw_or_0 s)"
    by (simp add: yaw_or_0_def)
  from 1 2 show ?thesis
    by (auto simp add: yaw_or_0_def)
qed

theorem pointer_delta_reversible_witness:
  "isLocked (step (MouseMove (pointer_at 1 0 0)) locked_player) \<and>
   yaw (step (MouseMove (pointer_at 1 0 0)) locked_player) = Some (- 0.002) \<and>
   yaw (onMouseMove (pointer_at 8 0 0) (step (MouseMove (pointer_at 1 0 0)) locked_player))
     = Some (- 0.018) \<and>
   yaw (onMouseMove (pointer_at (- 8) 0 0)
         (onMouseMove (pointer_at 8 0 0) (step (MouseMove (pointer_at 1 0 0)) locked_player)))
     = Some (- 0.002)"
  using pointer_delta_reversible
      [of "step (MouseMove (pointer_at 1 0 0)) locked_player" "pointer_at 8 0 0" 8
          "pointer_at (- 8) 0 0" "- 0.002"]
    turned_player
  by (simp add: pointer_at_def yaw_or_0_def player_defs onMouseMove_def)

theorem pointer_delta_rounding_counterexample:
  "map_option b64_value yaw64_after_1 = Some (- 1152921504606847 / 2 ^ 59) \<and>
   map_option b64_value
     (onMouseMove_yaw64 True rotationSpeed64 (Some (b64_of_int (- 8)))
        (onMouseMove_yaw64 True rotationSpeed64 (Some (b64_of_int 8)) yaw64_after_1))
     = Some (- 1152921504606848 / 2 ^ 59) \<and>
   map_option b64_value
     (onMouseMove_yaw64 True rotationSpeed64 (Some (b64_of_int (- 8)))
        (onMouseMove_yaw64 True rotationSpeed64 (Some (b64_of_int 8)) yaw64_after_1))
     \<noteq> map_option b64_value yaw64_after_1"
proof -
  have a: "map_option b64_value yaw64_after_1 = Some (- 1152921504606847 / 2 ^ 59)"
    by (simp add: yaw64_first value_first)
  have b: "map_option b64_value
     (onMouseMove_yaw64 True rotationSpeed64 (Some (b64_of_int (- 8)))
        (onMouseMove_yaw64 True rotationSpeed64 (Some (b64_of_int 8)) yaw64_after_1))
     = Some (- 1152921504606848 / 2 ^ 59)"
    by (simp only: yaw64_back option.map value_back)
  show ?thesis
    unfolding a b by simp
qed

section \<open>The claims about the artworks\<close>

text \<open>
  C6. \<open>setHighlight\<close> is idempotent: for every artwork and every flag, calling it twice
  with the same flag gives the state that calling it once gives. After one call the
  hover flag equals the argument, so the second call takes neither branch and changes
  neither the scale nor the emissive colour.
\<close>

theorem setHighlight_idempotent:
  "setHighlight flag (setHighlight flag a) = setHighlight flag a \<and>
   isHovered (setHighlight flag a) = flag"
  by (simp add: setHighlight_def)

text \<open>
  C1. For every index \<open>i\<close> below the total \<open>n\<close> and every radius \<open>r\<close>, the constructor
  places artwork \<open>i\<close> at the angle \<open>(i / n) * pi * 2\<close> on the circle of radius \<open>r\<close>, at
  \<open>(sin angle * r, 1.6, cos angle * r)\<close>, and turns it to the centre of the circle at
  the same height. \<open>createArtworks\<close> constructs artwork \<open>i\<close> of a manifest of \<open>n\<close> entries
  in this way with the default radius 15. With six artworks and radius 15, artwork 0 is
  at \<open>(0, 1.6, 15)\<close> and artwork 3 at \<open>(0, 1.6, -15)\<close>.
\<close>

theorem createArtworks_on_circle:
  assumes "i < n"
  shows "group_position (Artwork_new d i n (Some r)) =
           Vector3_new (sin ((real i / real n) * pi * 2) * r) 1.6
             (cos ((real i / real n) * pi * 2) * r) \<and>
         group_lookAt (Artwork_new d i n (Some r)) = Vector3_new 0 1.6 0 \<and>
         (length items = n \<longrightarrow>
            createArtworks items ! i = Artwork_new (items ! i) i n None \<and>
            group_position (createArtworks items ! i) =
              Vector3_new (sin ((real i / real n) * pi * 2) * 15) 1.6
                (cos ((real i / real n) * pi * 2) * 15) \<and>
            group_lookAt (createArtworks items ! i) = Vector3_new 0 1.6 0) \<and>
         (n = 6 \<and> i = 0 \<longrightarrow>
            group_position (Artwork_new d i n (Some 15)) = Vector3_new 0 1.6 15) \<and>
         (n = 6 \<and> i = 3 \<longrightarrow>
            group_position (Artwork_new d i n (Some 15)) = Vector3_new 0 1.6 (- 15))"
proof (intro conjI impI)
  show "group_position (Artwork_new d i n (Some r)) =
          Vector3_new (sin ((real i / real n) * pi * 2) * r) 1.6
            (cos ((real i / real n) * pi * 2) * r)"
    by (simp add: Artwork_new_placement)
  show "group_lookAt (Artwork_new d i n (Some r)) = Vector3_new 0 1.6 0"
    by (simp add: Artwork_new_placement)
next
  assume len: "length items = n"
  with assms show nth: "createArtworks items ! i = Artwork_new (items ! i) i n None"
    by (simp add: nth_createArtworks)
  show "group_position (createArtworks items ! i) =
          Vector3_new (sin ((real i / real n) * pi * 2) * 15) 1.6
            (cos ((real i / real n) * pi * 2) * 15)"
    unfolding nth by (simp add: Artwork_new_placement)
  show "group_lookAt (createArtworks items ! i) = Vector3_new 0 1.6 0"
    unfolding nth by (simp add: Artwork_new_placement)
next
  assume "n = 6 \<and> i = 0"
  then show "group_position (Artwork_new d i n (Some 15)) = Vector3_new 0 1.6 15"
    by (simp add: placement_0)
next
  assume "n = 6 \<and> i = 3"
  then show "group_position (Artwork_new d i n (Some 15)) = Vector3_new 0 1.6 (- 15)"
    by (simp add: placement_3)
qed

theorem createArtworks_on_circle_witness:
  "(0::nat) < 6 \<and> (3::nat) < 6 \<and> length ARTWORKS = 6 \<and>
   group_position (createArtworks ARTWORKS ! 0) = Vector3_new 0 1.6 15 \<and>
   group_position (createArtworks ARTWORKS ! 3) = Vector3_new 0 1.6 (- 15) \<and>
   group_lookAt (createArtworks ARTWORKS ! 3) = Vector3_new 0 1.6 0"
proof -
  have l0: "(0::nat) < 6" and l3: "(3::nat) < 6"
    by simp_all
  have s0: "sin (real 0 / real 6 * pi * 2) * 15 = 0 \<and> cos (real 0 / real 6 * pi * 2) * 15 = 15"
    by simp
  have s3: "sin (real 3 / real 6 * pi * 2) * 15 = 0 \<and> cos (real 3 / real 6 * pi * 2) * 15 = - 15"
    by simp
  have a: "group_position (createArtworks ARTWORKS ! 0) = Vector3_new 0 1.6 15"
    using createArtworks_on_circle [OF l0, of "ARTWORKS ! 0" 15 ARTWORKS] length_ARTWORKS s0
    by metis
  have b: "group_position (createArtworks ARTWORKS ! 3) = Vector3_new 0 1.6 (- 15) \<and>
           group_lookAt (createArtworks ARTWORKS ! 3) = Vector3_new 0 1.6 0"
    using createArtworks_on_circle [OF l3, of "ARTWORKS ! 3" 15 ARTWORKS] length_ARTWORKS s3
    by metis
  show ?thesis using a b l0 l3 length_ARTWORKS by blast
qed

text \<open>
  C5. In every state of the gallery reached from \<open>init\<close> by events at most one artwork
  is highlighted. A hover pass first resets the highlight of every artwork and then
  highlights at most the one it resolves, so after a hover pass with the pointer
  captured at most one artwork is highlighted, and every event keeps it so.
\<close>

theorem at_most_one_highlighted:
  "(reachable_gallery rc g \<longrightarrow> length (filter isHovered (artworks g)) \<le> 1) \<and>
   filter isHovered (map (setHighlight False) (artworks g)) = [] \<and>
   (isLocked (player g) \<longrightarrow>
      length (filter isHovered (artworks (onPointerMove rc event g))) \<le> 1) \<and>
   (length (filter isHovered (artworks g)) \<le> 1 \<longrightarrow>
      length (filter isHovered (artworks (dispatch rc e g))) \<le> 1)"
  using reachable_one [of rc g] reset_clears [of "artworks g"] hover_pass_one [of g rc event]
    dispatch_one [of g rc e]
  by blast

theorem at_most_one_highlighted_witness:
  "reachable_gallery (looking_at 2)
     (dispatch (looking_at 2) (Mousemove (pointer_at 0 400 300)) (locked_gallery (looking_at 2))) \<and>
   map isHovered (artworks (dispatch (looking_at 2) (Mousemove (pointer_at 0 400 300))
      (locked_gallery (looking_at 2)))) = [False, False, True, False, False, False] \<and>
   length (filter isHovered (artworks (dispatch (looking_at 2) (Mousemove (pointer_at 0 400 300))
      (locked_gallery (looking_at 2))))) \<le> 1 \<and>
   isLocked (player (locked_gallery (looking_at 2))) \<and>
   length (filter isHovered (artworks
     (onPointerMove (looking_at 2) (pointer_at 0 400 300) (locked_gallery (looking_at 2))))) \<le> 1 \<and>
   length (filter isHovered (artworks
     (dispatch (looking_at 2) (Resize 1024 768)
       (dispatch (looking_at 2) (Mousemove (pointer_at 0 400 300)) (locked_gallery (looking_at 2))))))
     \<le> 1"
proof -
  have r: "reachable_gallery (looking_at 2)
     (dispatch (looking_at 2) (Mousemove (pointer_at 0 400 300)) (locked_gallery (looking_at 2)))"
    unfolding locked_gallery_def by (intro reachable_dispatch reachable_init)
  have l: "isLocked (player (locked_gallery (looking_at 2)))"
    using locked_gallery_fields [of "looking_at 2"] by simp
  show ?thesis
    using r l sample_hover
      at_most_one_highlighted [of "looking_at 2" "locked_gallery (looking_at 2)"
        "pointer_at 0 400 300"]
      at_most_one_highlighted [of "looking_at 2"
        "dispatch (looking_at 2) (Mousemove (pointer_at 0 400 300)) (locked_gallery (looking_at 2))"
        _ "Resize 1024 768"]
    by blast
qed

text \<open>
  C4. The hover pass and the click pass resolve the same target, for every pointer
  position and camera and for every scene that the gallery builds: in every state
  reached from \<open>init\<close> the registry is in order, and when every tagged object that the
  ray hits is owned by a registered artwork (the constructor of \<open>Artwork\<close> alone sets
  the tag, on the image plane of a group that \<open>createArtworks\<close> registers), both passes
  cast the ray through the same normalised device coordinate, walk the intersections
  nearest first and stop at the same one. The click pass shows the manifest entry of
  the artwork that the hover pass highlights, and they resolve nothing together.
\<close>

theorem hover_and_click_agree:
  "(reachable_gallery rc g \<longrightarrow> registry_ok (artworks g)) \<and>
   (registry_ok (artworks g) \<longrightarrow>
    tags_owned (artworks g) (intersectObjects rc (g\<lparr>mouse := ndc event g\<rparr>)) \<longrightarrow>
      clickTarget rc event g =
        map_option (\<lambda>i. data (artworks g ! i)) (hoverTarget rc event g) \<and>
      (hoverTarget rc event g = None \<longleftrightarrow> clickTarget rc event g = None) \<and>
      (isLocked (player g) \<longrightarrow>
         (\<forall>i < length (artworks g).
            isHovered (artworks (onPointerMove rc event g) ! i) \<longleftrightarrow>
              hoverTarget rc event g = Some i) \<and>
         handleArtworkClick rc event g =
           (case clickTarget rc event g of
              None \<Rightarrow> g\<lparr>mouse := ndc event g\<rparr>
            | Some d \<Rightarrow> showArtworkInfo (title d) (artist d) (g\<lparr>mouse := ndc event g\<rparr>))))"
  using targets_agree [of g rc event] targets_none [of g rc event]
    hover_marks_target [of g _ rc event]
    click_shows_target [of g rc event] reachable_registry_ok [of rc g]
  by blast

theorem hover_and_click_agree_witness:
  "reachable_gallery (looking_at 2) (locked_gallery (looking_at 2)) \<and>
   registry_ok (artworks (locked_gallery (looking_at 2))) \<and>
   tags_owned (artworks (locked_gallery (looking_at 2)))
     (intersectObjects (looking_at 2)
        (locked_gallery (looking_at 2)
           \<lparr>mouse := ndc (pointer_at 0 400 300) (locked_gallery (looking_at 2))\<rparr>)) \<and>
   isLocked (player (locked_gallery (looking_at 2))) \<and>
   hoverTarget (looking_at 2) (pointer_at 0 400 300) (locked_gallery (looking_at 2)) = Some 2 \<and>
   isHovered (artworks (onPointerMove (looking_at 2) (pointer_at 0 400 300)
     (locked_gallery (looking_at 2))) ! 2) \<and>
   clickTarget (looking_at 2) (pointer_at 0 400 300) (locked_gallery (looking_at 2))
     = Some (ARTWORKS ! 2)"
proof -
  have g: "reachable_gallery (looking_at 2) (locked_gallery (looking_at 2))"
    unfolding locked_gallery_def by (intro reachable_dispatch reachable_init)
  note agree = hover_and_click_agree
    [of "looking_at 2" "locked_gallery (looking_at 2)" "pointer_at 0 400 300"]
  from agree g have r: "registry_ok (artworks (locked_gallery (looking_at 2)))"
    by blast
  have l: "isLocked (player (locked_gallery (looking_at 2)))"
    and n: "length (artworks (locked_gallery (looking_at 2))) = 6"
    using locked_gallery_fields [of "looking_at 2"]
    by (simp_all add: length_createArtworks length_ARTWORKS)
  have t: "tags_owned (artworks (locked_gallery (looking_at 2)))
     (intersectObjects (looking_at 2)
        (locked_gallery (looking_at 2)
           \<lparr>mouse := ndc (pointer_at 0 400 300) (locked_gallery (looking_at 2))\<rparr>))"
    using locked_gallery_fields [of "looking_at 2"] sample_tags_owned
    by (simp add: intersectObjects_def looking_at_def)
  have h: "hoverTarget (looking_at 2) (pointer_at 0 400 300) (locked_gallery (looking_at 2)) = Some 2"
    using sample_target [of "pointer_at 0 400 300" "player (locked_gallery (looking_at 2))"]
    by simp
  have i: "(2::nat) < 6" by simp
  have hov: "isHovered (artworks (onPointerMove (looking_at 2) (pointer_at 0 400 300)
     (locked_gallery (looking_at 2))) ! 2)"
    using agree r t l h n i by metis
  have c: "clickTarget (looking_at 2) (pointer_at 0 400 300) (locked_gallery (looking_at 2))
     = Some (ARTWORKS ! 2)"
    using agree r t h locked_gallery_fields [of "looking_at 2"]
    by (simp add: sample_data)
  show ?thesis
    by (intro conjI) (rule g r t l h hov c)+
qed

end
